theory Spec2Isabelle
  imports Main "HOL-Library.AList"
begin

section \<open>Data model of \<open>src/server/reducer.js\<close>\<close>

text \<open>
  The reducer works on plain JavaScript objects. An object used as a dictionary
  (\<open>state.clients\<close>, \<open>state.clusters\<close>) is an association list in the enumeration
  order of its keys: a key that is assigned keeps its place when it exists and is
  appended otherwise (\<open>AList.update\<close>), \<open>_.omit\<close> removes a key (\<open>AList.delete\<close>),
  and \<open>obj[k]\<close> is \<open>map_of obj k\<close>, where \<open>None\<close> stands for \<open>undefined\<close>.
  Property keys are strings, so client ids and cluster ids are strings.
  JavaScript enumerates keys that look like array indices before the others and
  in ascending order; the lists here keep the order of insertion for every key.
  The order decides only in which order a hook is shown the members of a
  cluster, in which order the tick applies its changes, and which of two
  failing updates throws first.
  Numbers (coordinates, sizes, timestamps) are integers, the values on which
  the arithmetic of JavaScript numbers is exact.

  A field that some code path leaves out of an object is optional. The field
  \<open>clusterId\<close> takes three kinds of values: it is absent (\<open>Undefined\<close>), it is
  \<open>null\<close> after \<open>leaveCluster\<close>, or it holds a cluster id.
\<close>

datatype error =
    TypeError
  | InvalidDirection string
  | UnhandledEvent string
  | InvariantViolation string

datatype 'a nullable = Undefined | Null | Val 'a

record point =
  px :: int
  py :: int

record dims =
  width :: int
  height :: int

record 'd client =
  client_id :: string
  client_size :: dims
  transform :: point
  adjacentClientIDs :: "string list option"
  clusterID :: "string option"
  clusterId :: "string nullable"
  connections :: "string list option"
  client_data :: "'d option"

record 'd cluster =
  cluster_id :: string
  cluster_data :: 'd

record swipe =
  swipe_id :: string
  direction :: string
  position :: point
  timestamp :: "int option"

record 'd state =
  clusters :: "(string \<times> 'd cluster) list"
  clients :: "(string \<times> 'd client) list"
  swipes :: "swipe list"

definition initialState :: "'d state" where
  "initialState = \<lparr>clusters = [], clients = [], swipes = []\<rparr>"

definition SWIPE_DELAY_TOLERANCE :: int where
  "SWIPE_DELAY_TOLERANCE = 500"

subsection \<open>JavaScript truthiness and key coercion\<close>

text \<open>
  \<open>!client.clusterId\<close> holds for \<open>undefined\<close>, \<open>null\<close> and the empty string;
  \<open>_.isNil\<close> holds for \<open>undefined\<close> and \<open>null\<close> only. A value used as a property
  key is converted to a string.
\<close>

fun truthy :: "string nullable \<Rightarrow> bool" where
  "truthy Undefined = False"
| "truthy Null = False"
| "truthy (Val s) = (s \<noteq> [])"

fun isNil :: "'a nullable \<Rightarrow> bool" where
  "isNil Undefined = True"
| "isNil Null = True"
| "isNil (Val s) = False"

fun key_of :: "string nullable \<Rightarrow> string" where
  "key_of Undefined = ''undefined''"
| "key_of Null = ''null''"
| "key_of (Val s) = s"

section \<open>TransformCalculator\<close>

text \<open>
  \<open>getTransform (clientA, swipeA, clientB, swipeB)\<close>: a \<open>switch\<close> on
  \<open>swipeA.direction\<close> whose default branch throws.
\<close>

definition getTransform ::
  "'d client \<Rightarrow> swipe \<Rightarrow> 'd client \<Rightarrow> swipe \<Rightarrow> error + point" where
  "getTransform clientA swipeA clientB swipeB =
     (if direction swipeA = ''LEFT'' then
        Inr \<lparr>px = px (transform clientA) - width (client_size clientB),
             py = py (transform clientA) + (py (position swipeA) - py (position swipeB))\<rparr>
      else if direction swipeA = ''RIGHT'' then
        Inr \<lparr>px = px (transform clientA) + width (client_size clientA),
             py = py (transform clientA) + (py (position swipeA) - py (position swipeB))\<rparr>
      else if direction swipeA = ''UP'' then
        Inr \<lparr>px = px (transform clientA) + (px (position swipeA) - px (position swipeB)),
             py = py (transform clientA) - height (client_size clientB)\<rparr>
      else if direction swipeA = ''DOWN'' then
        Inr \<lparr>px = px (transform clientA) + (px (position swipeA) - px (position swipeB)),
             py = py (transform clientA) + height (client_size clientA)\<rparr>
      else Inl (InvalidDirection (direction swipeA)))"

section \<open>Embedder configuration and collaborators\<close>

text \<open>
  The embedder's hooks are JavaScript functions called with arguments of several
  shapes. \<open>config.client.init\<close> and \<open>config.cluster.init\<close> receive the new
  client (in \<open>connect\<close>), the list of the two members (\<open>cluster.init\<close> in
  \<open>createCluster\<close>), or a cluster object \<open>{data, clients}\<close> and a client. The
  \<open>data\<close> of that cluster object is the fresh cluster data in \<open>createCluster\<close>
  and the whole entry \<open>clusters[clusterId]\<close> in \<open>joinCluster\<close>.
\<close>

datatype 'd cluster_arg_data = ClusterData 'd | ClusterRecord "'d cluster option"

record 'd cluster_arg =
  arg_data :: "'d cluster_arg_data"
  arg_clients :: "'d client list"

datatype 'd init_args =
    InitClient "'d client"
  | InitMembers "'d client list"
  | InitInCluster "'d cluster_arg" "'d client"

text \<open>
  An update description of \<open>immutability-helper\<close> that the embedder returns is
  the function it denotes on the value at its path: the new value, or the error
  the library throws. A handler of \<open>config.client.events\<close> returns one
  JavaScript value. \<open>nextState\<close> reads it as the description for the field
  \<open>data\<close>; \<open>clientAction\<close> reads its properties \<open>cluster\<close> and \<open>client\<close>,
  each of which may be missing.
\<close>

record 'd view =
  view_client :: "'d client option"
  view_cluster :: "'d cluster option"
  view_clients :: "'d client list"

record 'd hook_result =
  data_spec :: "'d option \<Rightarrow> error + 'd"
  cluster_spec :: "('d cluster option \<Rightarrow> error + 'd cluster) option"
  client_spec :: "('d client option \<Rightarrow> error + 'd client) option"

type_synonym ('d, 'p) hook = "'d view \<Rightarrow> 'p option \<Rightarrow> 'd hook_result"

text \<open>
  \<open>client_events cfg t\<close> is \<open>config.client.events[t]\<close> when that is a function;
  \<open>config.client.events.update\<close> is the entry at \<open>''update''\<close>. Likewise for
  \<open>config.cluster.events\<close>.
\<close>

record ('d, 'p) config =
  client_init :: "'d init_args \<Rightarrow> 'd"
  cluster_init :: "'d init_args \<Rightarrow> 'd"
  client_events :: "string \<Rightarrow> ('d, 'p) hook option"
  cluster_events :: "string \<Rightarrow> ('d, 'p) hook option"

text \<open>
  The two effects of a step: \<open>uid ()\<close> is called at most once, and returns
  \<open>uid env\<close>; \<open>date_now env k\<close> is what the \<open>k\<close>-th call of \<open>Date.now ()\<close>
  in the step returns (counting from 0).
\<close>

record env =
  uid :: string
  date_now :: "nat \<Rightarrow> int"

subsection \<open>The helpers of \<open>utils\<close>\<close>

text \<open>
  Modelled from the spec: \<open>utils.getClientsInCluster\<close>, whose file \<open>utils.js\<close> is
  not among the sources. The spec's projection exposes "all clients in that
  cluster", a member of a cluster being a client whose \<open>clusterId\<close> references it.
  The clients come in the enumeration order of \<open>clients\<close>.
\<close>

definition getClientsInCluster ::
  "(string \<times> 'd client) list \<Rightarrow> string nullable \<Rightarrow> 'd client list" where
  "getClientsInCluster cls cid = filter (\<lambda>c. clusterId c = cid) (map snd cls)"

text \<open>
  Modelled from the spec: \<open>utils.getClusterState\<close>, not among the sources. "Given
  state and an id, produce a view exposing the client (if applicable), its
  cluster, and all clients in that cluster."
\<close>

definition getClusterState :: "'d state \<Rightarrow> string \<Rightarrow> 'd view" where
  "getClusterState st cid =
     \<lparr>view_client = None,
      view_cluster = map_of (clusters st) cid,
      view_clients = getClientsInCluster (clients st) (Val cid)\<rparr>"

text \<open>
  Modelled from the spec: \<open>utils.getClientState\<close>, not among the sources. The same
  projection for a client id: the client, its cluster, and all clients in that
  cluster.
\<close>

definition getClientState :: "'d state \<Rightarrow> string \<Rightarrow> 'd view" where
  "getClientState st i =
     (case map_of (clients st) i of
        None \<Rightarrow> \<lparr>view_client = None, view_cluster = None, view_clients = []\<rparr>
      | Some c \<Rightarrow>
          \<lparr>view_client = Some c,
           view_cluster = map_of (clusters st) (key_of (clusterId c)),
           view_clients = getClientsInCluster (clients st) (clusterId c)\<rparr>)"

subsection \<open>The calls of \<open>update\<close> (immutability-helper)\<close>

text \<open>
  \<open>update (obj, {[k]: spec})\<close> applies \<open>spec\<close> to \<open>obj[k]\<close> and stores the result
  under \<open>k\<close>. When \<open>spec\<close> names fields of the entry and the entry is missing,
  reading the field of \<open>undefined\<close> throws a TypeError.
\<close>

definition update_key ::
  "string \<Rightarrow> ('v \<Rightarrow> error + 'v) \<Rightarrow> (string \<times> 'v) list \<Rightarrow> error + (string \<times> 'v) list" where
  "update_key k f obj =
     (case map_of obj k of
        None \<Rightarrow> Inl TypeError
      | Some v \<Rightarrow> (case f v of Inl e \<Rightarrow> Inl e | Inr v' \<Rightarrow> Inr (AList.update k v' obj)))"

text \<open>
  \<open>{connections: {$push: [i]}}\<close>: the command \<open>$push\<close> checks that its target is
  an array and throws otherwise, so it throws on an object without the field
  \<open>connections\<close>.
\<close>

definition push_connection :: "string \<Rightarrow> 'd client \<Rightarrow> error + 'd client" where
  "push_connection i c =
     (case connections c of
        None \<Rightarrow> Inl (InvariantViolation ''$push'')
      | Some cs \<Rightarrow> Inr (c\<lparr>connections := Some (cs @ [i])\<rparr>))"

text \<open>
  The description \<open>{[clientA.id]: specA, [clientB.id]: specB}\<close> of the two merge
  functions. An object literal with the same computed key twice keeps the later
  value, so with equal ids only \<open>specB\<close> is applied. The keys are different
  otherwise, and each description reads the entry of its own key.
\<close>

definition update_two ::
  "string \<Rightarrow> ('v \<Rightarrow> error + 'v) \<Rightarrow> string \<Rightarrow> ('v \<Rightarrow> error + 'v) \<Rightarrow>
   (string \<times> 'v) list \<Rightarrow> error + (string \<times> 'v) list" where
  "update_two ka fa kb fb obj =
     (if ka = kb then update_key kb fb obj
      else (case update_key ka fa obj of
              Inl e \<Rightarrow> Inl e
            | Inr obj' \<Rightarrow> update_key kb fb obj'))"

section \<open>ConnectionManager\<close>

definition connect :: "('d, 'p) config \<Rightarrow> env \<Rightarrow> 'd state \<Rightarrow> string \<Rightarrow> dims \<Rightarrow> 'd state" where
  "connect cfg e st i sz =
     (let cID = uid e;
          client = \<lparr>client_id = i, client_size = sz, transform = \<lparr>px = 0, py = 0\<rparr>,
                    adjacentClientIDs = Some [], clusterID = Some cID,
                    clusterId = Undefined, connections = None, client_data = None\<rparr>;
          clientData = client_init cfg (InitClient client);
          clusterData = cluster_init cfg (InitClient client)
      in st\<lparr>clusters := AList.update cID \<lparr>cluster_id = cID, cluster_data = clusterData\<rparr>
                            (clusters st),
            clients := AList.update i (client\<lparr>client_data := Some clientData\<rparr>) (clients st)\<rparr>)"

section \<open>SwipeMatcher and ClusterLifecycleManager\<close>

definition coincident :: "int \<Rightarrow> swipe \<Rightarrow> bool" where
  \<comment> \<open>The predicate of the filter; a missing timestamp gives \<open>NaN < 500\<close>, false.\<close>
  "coincident now s =
     (case timestamp s of None \<Rightarrow> False | Some t \<Rightarrow> now - t < SWIPE_DELAY_TOLERANCE)"

fun coincidentFrom :: "(nat \<Rightarrow> int) \<Rightarrow> nat \<Rightarrow> swipe list \<Rightarrow> swipe list" where
  "coincidentFrom clock k [] = []"
| "coincidentFrom clock k (s # ss) =
     (if coincident (clock k) s then s # coincidentFrom clock (Suc k) ss
      else coincidentFrom clock (Suc k) ss)"

definition getCoincidentSwipes :: "env \<Rightarrow> swipe list \<Rightarrow> swipe list" where
  "getCoincidentSwipes e sws = coincidentFrom (date_now e) 0 sws"

definition addSwipe :: "int \<Rightarrow> 'd state \<Rightarrow> swipe list \<Rightarrow> swipe \<Rightarrow> 'd state" where
  \<comment> \<open>The first argument is what the call of \<open>Date.now ()\<close> in the body returns.\<close>
  "addSwipe now st sws sw = st\<lparr>swipes := sws @ [sw\<lparr>timestamp := Some now\<rparr>]\<rparr>"

definition joinCluster ::
  "('d, 'p) config \<Rightarrow> 'd state \<Rightarrow> 'd client \<Rightarrow> swipe \<Rightarrow> 'd client option \<Rightarrow> swipe \<Rightarrow>
   error + 'd state" where
  \<comment> \<open>\<open>clientB\<close> is \<open>undefined\<close> when \<open>clusterClients\<close> found no client for the
     pending swipe; \<open>clientB.id\<close> then throws.\<close>
  "joinCluster cfg st clientA swipeA clientB_opt swipeB =
     (case clientB_opt of
        None \<Rightarrow> Inl TypeError
      | Some clientB \<Rightarrow>
          (let cId = clusterId clientA;
               cluster = \<lparr>arg_data = ClusterRecord (map_of (clusters st) (key_of cId)),
                          arg_clients = getClientsInCluster (clients st) cId @ [clientB]\<rparr>;
               clientData = client_init cfg (InitInCluster cluster clientB)
           in case getTransform clientA swipeA clientB swipeB of
                Inl e \<Rightarrow> Inl e
              | Inr t \<Rightarrow>
                  (case update_two
                          (client_id clientA) (push_connection (swipe_id swipeB))
                          (client_id clientB)
                          (\<lambda>c. push_connection (swipe_id swipeA)
                                 (c\<lparr>clusterId := cId, client_data := Some clientData,
                                    transform := t\<rparr>))
                          (clients st) of
                     Inl e \<Rightarrow> Inl e
                   | Inr cls \<Rightarrow> Inr (st\<lparr>clients := cls\<rparr>))))"

definition createCluster ::
  "('d, 'p) config \<Rightarrow> env \<Rightarrow> 'd state \<Rightarrow> 'd client \<Rightarrow> swipe \<Rightarrow> 'd client \<Rightarrow> swipe \<Rightarrow>
   error + 'd state" where
  "createCluster cfg e st clientA swipeA clientB swipeB =
     (let cId = uid e;
          clusterData = cluster_init cfg (InitMembers [clientA, clientB]);
          cluster = \<lparr>arg_data = ClusterData clusterData, arg_clients = [clientA, clientB]\<rparr>;
          clientAData = client_init cfg (InitInCluster cluster clientA);
          clientBData = client_init cfg (InitInCluster cluster clientB)
      in case getTransform clientA swipeA clientB swipeB of
           Inl e \<Rightarrow> Inl e
         | Inr t \<Rightarrow>
             (case update_two
                     (client_id clientA)
                     (\<lambda>c. push_connection (swipe_id swipeB)
                            (c\<lparr>clusterId := Val cId, client_data := Some clientAData\<rparr>))
                     (client_id clientB)
                     (\<lambda>c. push_connection (swipe_id swipeA)
                            (c\<lparr>clusterId := Val cId, client_data := Some clientBData,
                               transform := t\<rparr>))
                     (clients st) of
                Inl e \<Rightarrow> Inl e
              | Inr cls \<Rightarrow>
                  Inr (st\<lparr>clusters := AList.update cId
                                         \<lparr>cluster_id = cId, cluster_data = clusterData\<rparr>
                                         (clusters st),
                          clients := cls\<rparr>)))"

definition clusterClients ::
  "('d, 'p) config \<Rightarrow> env \<Rightarrow> 'd state \<Rightarrow> swipe \<Rightarrow> swipe \<Rightarrow> error + 'd state" where
  \<comment> \<open>\<open>clientA.clusterId\<close> and \<open>clientB.clusterId\<close> throw on a missing client.\<close>
  "clusterClients cfg e st swipeA swipeB =
     (case map_of (clients st) (swipe_id swipeA) of
        None \<Rightarrow> Inl TypeError
      | Some clientA \<Rightarrow>
          if truthy (clusterId clientA)
          then joinCluster cfg st clientA swipeA (map_of (clients st) (swipe_id swipeB)) swipeB
          else (case map_of (clients st) (swipe_id swipeB) of
                  None \<Rightarrow> Inl TypeError
                | Some clientB \<Rightarrow>
                    if truthy (clusterId clientB)
                    then joinCluster cfg st clientB swipeB (Some clientA) swipeA
                    else createCluster cfg e st clientA swipeA clientB swipeB))"

definition doSwipe :: "('d, 'p) config \<Rightarrow> env \<Rightarrow> 'd state \<Rightarrow> swipe \<Rightarrow> error + 'd state" where
  \<comment> \<open>The filter has read the clock once for each stored entry when \<open>addSwipe\<close>
     reads it.\<close>
  "doSwipe cfg e st sw =
     (let sws = getCoincidentSwipes e (swipes st)
      in case sws of
           [] \<Rightarrow> Inr (addSwipe (date_now e (length (swipes st))) st sws sw)
         | swipeB # others \<Rightarrow>
             (case clusterClients cfg e st sw swipeB of
                Inl err \<Rightarrow> Inl err
              | Inr r \<Rightarrow>
                  Inr (st\<lparr>swipes := [], clients := clients r, clusters := clusters r\<rparr>)))"

section \<open>ClusterDepartureManager\<close>

definition removeEmptyCluster ::
  "(string \<times> 'd cluster) list \<Rightarrow> (string \<times> 'd client) list \<Rightarrow> string nullable \<Rightarrow>
   (string \<times> 'd cluster) list" where
  "removeEmptyCluster cs cls cId =
     (if length (getClientsInCluster cls cId) > 1 then cs
      else AList.delete (key_of cId) cs)"

definition leaveCluster :: "'d state \<Rightarrow> string \<Rightarrow> 'd state" where
  "leaveCluster st i =
     (case map_of (clients st) i of
        None \<Rightarrow> st
      | Some client \<Rightarrow>
          if isNil (clusterId client) then st
          else st\<lparr>clusters := removeEmptyCluster (clusters st) (clients st) (clusterId client),
                  clients := AList.update i (client\<lparr>clusterId := Null\<rparr>) (clients st)\<rparr>)"

definition disconnect :: "'d state \<Rightarrow> string \<Rightarrow> 'd state" where
  "disconnect st i =
     (case map_of (clients st) i of
        None \<Rightarrow> st
      | Some client \<Rightarrow>
          st\<lparr>clusters := removeEmptyCluster (clusters st) (clients st) (clusterId client),
             clients := AList.delete i (clients st)\<rparr>)"

section \<open>ClientActionDispatcher\<close>

text \<open>
  \<open>update (state, changes)\<close> handles \<open>changes.clusters\<close> before
  \<open>changes.clients\<close>, the order in which \<open>clientAction\<close> and \<open>nextState\<close> assign
  them. The entry that a description of the handler is applied to may be
  missing; the description decides what happens then.
\<close>

definition apply_spec ::
  "string \<Rightarrow> ('v option \<Rightarrow> error + 'v) option \<Rightarrow> (string \<times> 'v) list \<Rightarrow>
   error + (string \<times> 'v) list" where
  "apply_spec k spec obj =
     (case spec of
        None \<Rightarrow> Inr obj
      | Some f \<Rightarrow> (case f (map_of obj k) of
                     Inl e \<Rightarrow> Inl e
                   | Inr v \<Rightarrow> Inr (AList.update k v obj)))"

definition clientAction ::
  "('d, 'p) config \<Rightarrow> 'd state \<Rightarrow> string \<Rightarrow> string \<Rightarrow> 'p \<Rightarrow> error + 'd state" where
  "clientAction cfg st i ty payload =
     (case client_events cfg ty of
        None \<Rightarrow> Inl (UnhandledEvent ty)
      | Some handler \<Rightarrow>
          (case map_of (clients st) i of
             None \<Rightarrow> Inr st
           | Some client \<Rightarrow>
               if \<not> truthy (clusterId client) then Inr st
               else
                 (let clientEventState = getClientState st (client_id client);
                      stateUpdates = handler clientEventState (Some payload)
                  in case apply_spec (key_of (clusterId client)) (cluster_spec stateUpdates)
                            (clusters st) of
                       Inl e \<Rightarrow> Inl e
                     | Inr cs \<Rightarrow>
                         (case apply_spec (client_id client) (client_spec stateUpdates)
                                 (clients st) of
                            Inl e \<Rightarrow> Inl e
                          | Inr cls \<Rightarrow> Inr (st\<lparr>clusters := cs, clients := cls\<rparr>)))))"

section \<open>TickUpdater\<close>

definition hasCluster :: "'d client \<Rightarrow> bool" where
  "hasCluster client = (\<not> isNil (clusterId client))"

definition getClusterChanges ::
  "'d state \<Rightarrow> ('d, 'p) hook \<Rightarrow> 'd cluster \<Rightarrow> ('d option \<Rightarrow> error + 'd)" where
  "getClusterChanges st next cluster =
     data_spec (next (getClusterState st (cluster_id cluster)) None)"

definition getAllClustersChanges ::
  "'d state \<Rightarrow> ('d, 'p) hook \<Rightarrow> (string \<times> ('d option \<Rightarrow> error + 'd)) list" where
  "getAllClustersChanges st next =
     zip (map fst (clusters st)) (map (getClusterChanges st next) (map snd (clusters st)))"

definition getClientChanges ::
  "'d state \<Rightarrow> ('d, 'p) hook \<Rightarrow> 'd client \<Rightarrow> ('d option \<Rightarrow> error + 'd)" where
  "getClientChanges st next client =
     data_spec (next (getClientState st (client_id client)) None)"

definition getAllClientsChanges ::
  "'d state \<Rightarrow> ('d, 'p) hook \<Rightarrow> (string \<times> ('d option \<Rightarrow> error + 'd)) list" where
  "getAllClientsChanges st next =
     (let clusteredClients = filter (\<lambda>(k, c). hasCluster c) (clients st)
      in zip (map fst clusteredClients)
             (map (getClientChanges st next) (map snd clusteredClients)))"

text \<open>
  \<open>update (obj, {k1: {data: s1}, k2: {data: s2}, ...})\<close>: one entry after the
  other, each description applied to the field \<open>data\<close> of its entry.
\<close>

fun apply_changes ::
  "('v \<Rightarrow> 'd option) \<Rightarrow> ('d \<Rightarrow> 'v \<Rightarrow> 'v) \<Rightarrow> (string \<times> ('d option \<Rightarrow> error + 'd)) list \<Rightarrow>
   (string \<times> 'v) list \<Rightarrow> error + (string \<times> 'v) list" where
  "apply_changes rd wr [] obj = Inr obj"
| "apply_changes rd wr ((k, spec) # rest) obj =
     (case update_key k
             (\<lambda>v. case spec (rd v) of Inl e \<Rightarrow> Inl e | Inr d \<Rightarrow> Inr (wr d v)) obj of
        Inl e \<Rightarrow> Inl e
      | Inr obj' \<Rightarrow> apply_changes rd wr rest obj')"

definition nextState :: "('d, 'p) config \<Rightarrow> 'd state \<Rightarrow> error + 'd state" where
  "nextState cfg st =
     (let getNextClientChanges = client_events cfg ''update'';
          getNextClusterChanges = cluster_events cfg ''update'';
          cluster_changes = (case getNextClusterChanges of
                               None \<Rightarrow> []
                             | Some next \<Rightarrow> getAllClustersChanges st next);
          client_changes = (case getNextClientChanges of
                              None \<Rightarrow> []
                            | Some next \<Rightarrow> getAllClientsChanges st next)
      in case apply_changes (\<lambda>c. Some (cluster_data c)) (\<lambda>d c. c\<lparr>cluster_data := d\<rparr>)
                cluster_changes (clusters st) of
           Inl e \<Rightarrow> Inl e
         | Inr cs \<Rightarrow>
             (case apply_changes client_data (\<lambda>d c. c\<lparr>client_data := Some d\<rparr>)
                     client_changes (clients st) of
                Inl e \<Rightarrow> Inl e
              | Inr cls \<Rightarrow> Inr (st\<lparr>clusters := cs, clients := cls\<rparr>)))"

section \<open>The reducer\<close>

datatype 'p action =
    NEXT_STATE
  | CLIENT_ACTION string string 'p
  | CONNECT string dims
  | SWIPE swipe
  | LEAVE_CLUSTER string
  | DISCONNECT string
  | OTHER

fun reducer :: "('d, 'p) config \<Rightarrow> env \<Rightarrow> 'd state \<Rightarrow> 'p action \<Rightarrow> error + 'd state" where
  "reducer cfg e st NEXT_STATE = nextState cfg st"
| "reducer cfg e st (CLIENT_ACTION i ty payload) = clientAction cfg st i ty payload"
| "reducer cfg e st (CONNECT i sz) = Inr (connect cfg e st i sz)"
| "reducer cfg e st (SWIPE sw) = doSwipe cfg e st sw"
| "reducer cfg e st (LEAVE_CLUSTER i) = Inr (leaveCluster st i)"
| "reducer cfg e st (DISCONNECT i) = Inr (disconnect st i)"
| "reducer cfg e st OTHER = Inr st"

text \<open>
  Dispatching a sequence of actions, each with the values its step reads from
  \<open>uid\<close> and the clock. An exception ends the run.
\<close>

fun run ::
  "('d, 'p) config \<Rightarrow> 'd state \<Rightarrow> (env \<times> 'p action) list \<Rightarrow> error + 'd state" where
  "run cfg st [] = Inr st"
| "run cfg st ((e, a) # rest) =
     (case reducer cfg e st a of Inl err \<Rightarrow> Inl err | Inr st' \<Rightarrow> run cfg st' rest)"

section \<open>States without a paired client\<close>

text \<open>
  The states in which every client is stored under its own id, once, and is as
  \<open>connect\<close> leaves it: no \<open>clusterId\<close> and no \<open>connections\<close>.
\<close>

definition unpaired :: "'d state \<Rightarrow> bool" where
  "unpaired st \<longleftrightarrow>
     distinct (map fst (clients st))
     \<and> (\<forall>(k, v) \<in> set (clients st).
           client_id v = k \<and> clusterId v = Undefined \<and> connections v = None)"

section \<open>Example values\<close>

definition mkSwipe :: "string \<Rightarrow> string \<Rightarrow> int \<Rightarrow> int \<Rightarrow> swipe" where
  \<comment> \<open>The payload \<open>{id, direction, position: {x, y}}\<close> of a SWIPE action.\<close>
  "mkSwipe i d x0 y0 =
     \<lparr>swipe_id = i, direction = d, position = \<lparr>px = x0, py = y0\<rparr>, timestamp = None\<rparr>"

definition exClient :: "string \<Rightarrow> int \<Rightarrow> int \<Rightarrow> string nullable \<Rightarrow> nat client" where
  \<comment> \<open>A client with a \<open>connections\<close> array, at the origin.\<close>
  "exClient i w h cid =
     \<lparr>client_id = i, client_size = \<lparr>width = w, height = h\<rparr>, transform = \<lparr>px = 0, py = 0\<rparr>,
      adjacentClientIDs = None, clusterID = None, clusterId = cid,
      connections = Some [], client_data = Some 0\<rparr>"

definition exConfig :: "(nat, unit) config" where
  \<comment> \<open>Cluster data counts the members it was initialised with; one client event,
     \<open>tap\<close>, is registered, and no update hook.\<close>
  "exConfig =
     \<lparr>client_init = (\<lambda>a. 7),
      cluster_init = (\<lambda>a. case a of InitMembers ms \<Rightarrow> length ms | _ \<Rightarrow> 1),
      client_events =
        (\<lambda>t. if t = ''tap''
             then Some (\<lambda>v p. \<lparr>data_spec = (\<lambda>d. Inr 9), cluster_spec = None,
                                client_spec = None\<rparr>)
             else None),
      cluster_events = (\<lambda>t. None)\<rparr>"

definition envAt :: "string \<Rightarrow> int \<Rightarrow> env" where
  \<comment> \<open>A step in which \<open>uid ()\<close> returns \<open>u\<close> and the clock stands at \<open>t\<close>.\<close>
  "envAt u t = \<lparr>uid = u, date_now = (\<lambda>k. t)\<rparr>"

definition exPending :: "nat state" where
  \<comment> \<open>Two clients without a cluster; \<open>A\<close> swiped at time 1000.\<close>
  "exPending =
     \<lparr>clusters = [],
      clients = [(''A'', exClient ''A'' 100 50 Undefined), (''B'', exClient ''B'' 80 40 Undefined)],
      swipes = [(mkSwipe ''A'' ''RIGHT'' 10 5)\<lparr>timestamp := Some 1000\<rparr>]\<rparr>"

definition exSolo :: "nat state" where
  \<comment> \<open>The initial state after client \<open>1\<close> has connected, and after client \<open>2\<close> has.\<close>
  "exSolo = connect exConfig (envAt ''c1'' 1000) initialState ''1'' \<lparr>width = 100, height = 100\<rparr>"

definition exDuo :: "nat state" where
  \<comment> \<open>The cluster \<open>k\<close> with its two members.\<close>
  "exDuo =
     \<lparr>clusters = [(''k'', \<lparr>cluster_id = ''k'', cluster_data = 2\<rparr>)],
      clients = [(''A'', exClient ''A'' 100 50 (Val ''k'')), (''B'', exClient ''B'' 80 40 (Val ''k''))],
      swipes = []\<rparr>"

definition exLast :: "nat state" where
  \<comment> \<open>The cluster \<open>k\<close> with one member.\<close>
  "exLast =
     \<lparr>clusters = [(''k'', \<lparr>cluster_id = ''k'', cluster_data = 2\<rparr>)],
      clients = [(''B'', exClient ''B'' 80 40 (Val ''k''))],
      swipes = []\<rparr>"

definition exJoin :: "nat state" where
  \<comment> \<open>\<open>A\<close> and \<open>B\<close> in the cluster \<open>k\<close>, \<open>C\<close> in none; \<open>A\<close> swiped at time 1000.\<close>
  "exJoin =
     \<lparr>clusters = [(''k'', \<lparr>cluster_id = ''k'', cluster_data = 2\<rparr>)],
      clients = [(''A'', exClient ''A'' 100 50 (Val ''k'')), (''B'', exClient ''B'' 80 40 (Val ''k'')),
                 (''C'', exClient ''C'' 60 30 Undefined)],
      swipes = [(mkSwipe ''A'' ''RIGHT'' 10 5)\<lparr>timestamp := Some 1000\<rparr>]\<rparr>"

definition exJoined :: "nat state" where
  \<comment> \<open>\<open>exJoin\<close> after \<open>C\<close> has joined \<open>k\<close> to the right of \<open>A\<close>.\<close>
  "exJoined =
     \<lparr>clusters = [(''k'', \<lparr>cluster_id = ''k'', cluster_data = 2\<rparr>)],
      clients =
        [(''A'', (exClient ''A'' 100 50 (Val ''k''))\<lparr>connections := Some [''C'']\<rparr>),
         (''B'', exClient ''B'' 80 40 (Val ''k'')),
         (''C'', (exClient ''C'' 60 30 (Val ''k''))
                   \<lparr>transform := \<lparr>px = 100, py = 0\<rparr>, connections := Some [''A''],
                    client_data := Some 7\<rparr>)],
      swipes = []\<rparr>"

definition exTwo :: "nat state" where
  "exTwo = connect exConfig (envAt ''c2'' 1001) exSolo ''2'' \<lparr>width = 100, height = 100\<rparr>"

definition soloClient :: "string \<Rightarrow> string \<Rightarrow> nat client" where
  \<comment> \<open>The record that \<open>connect\<close> stores for a client of size 100 x 100 under
     \<open>exConfig\<close> when \<open>uid ()\<close> returns \<open>u\<close>.\<close>
  "soloClient i u =
     \<lparr>client_id = i, client_size = \<lparr>width = 100, height = 100\<rparr>, transform = \<lparr>px = 0, py = 0\<rparr>,
      adjacentClientIDs = Some [], clusterID = Some u, clusterId = Undefined,
      connections = None, client_data = Some 7\<rparr>"

definition exMixed :: "nat state" where
  \<comment> \<open>Client \<open>1\<close> connects to a state that holds the cluster \<open>k\<close> with its member \<open>B\<close>.\<close>
  "exMixed = connect exConfig (envAt ''c1'' 1000) exLast ''1'' \<lparr>width = 100, height = 100\<rparr>"

definition exPaired :: "nat state" where
  \<comment> \<open>\<open>exPending\<close> after \<open>B\<close> and \<open>A\<close> have been paired in the new cluster \<open>k\<close>,
     the queue not yet cleared.\<close>
  "exPaired =
     \<lparr>clusters = [(''k'', \<lparr>cluster_id = ''k'', cluster_data = 2\<rparr>)],
      clients =
        [(''A'', (exClient ''A'' 100 50 (Val ''k''))
                   \<lparr>transform := \<lparr>px = - 100, py = 0\<rparr>, connections := Some [''B''],
                    client_data := Some 7\<rparr>),
         (''B'', (exClient ''B'' 80 40 (Val ''k''))
                   \<lparr>connections := Some [''A''], client_data := Some 7\<rparr>)],
      swipes = swipes exPending\<rparr>"

section \<open>Properties\<close>

subsection \<open>Transform computation\<close>

text \<open>
  C8. For every anchor, joiner and pair of swipes the transform computation
  returns: for LEFT, x = anchor.x - joiner.width and y = anchor.y +
  (anchorSwipe.y - joinerSwipe.y); for RIGHT, x = anchor.x + anchor.width and
  the same y; for UP, y = anchor.y - joiner.height and x = anchor.x +
  (anchorSwipe.x - joinerSwipe.x); for DOWN, y = anchor.y + anchor.height and
  the same x; any other direction value fails with InvalidDirection. In
  particular an anchor A of size 100 x 50 swiping RIGHT at (10, 5), paired with
  B of size 80 x 40 swiping LEFT at (0, 5), puts B at (A.x + 100, A.y + 0).
\<close>

theorem getTransform_cases:
  fixes a b :: "'d client" and sa sb :: swipe
  shows
  "(direction sa = ''LEFT'' \<longrightarrow> getTransform a sa b sb =
      Inr \<lparr>px = px (transform a) - width (client_size b),
           py = py (transform a) + (py (position sa) - py (position sb))\<rparr>)
   \<and> (direction sa = ''RIGHT'' \<longrightarrow> getTransform a sa b sb =
      Inr \<lparr>px = px (transform a) + width (client_size a),
           py = py (transform a) + (py (position sa) - py (position sb))\<rparr>)
   \<and> (direction sa = ''UP'' \<longrightarrow> getTransform a sa b sb =
      Inr \<lparr>px = px (transform a) + (px (position sa) - px (position sb)),
           py = py (transform a) - height (client_size b)\<rparr>)
   \<and> (direction sa = ''DOWN'' \<longrightarrow> getTransform a sa b sb =
      Inr \<lparr>px = px (transform a) + (px (position sa) - px (position sb)),
           py = py (transform a) + height (client_size a)\<rparr>)
   \<and> (direction sa \<notin> {''LEFT'', ''RIGHT'', ''UP'', ''DOWN''} \<longrightarrow>
        getTransform a sa b sb = Inl (InvalidDirection (direction sa)))
   \<and> (direction sa = ''RIGHT'' \<and> position sa = \<lparr>px = 10, py = 5\<rparr>
        \<and> client_size a = \<lparr>width = 100, height = 50\<rparr>
        \<and> direction sb = ''LEFT'' \<and> position sb = \<lparr>px = 0, py = 5\<rparr>
        \<and> client_size b = \<lparr>width = 80, height = 40\<rparr> \<longrightarrow>
        getTransform a sa b sb =
          Inr \<lparr>px = px (transform a) + 100, py = py (transform a) + 0\<rparr>)"
  by (simp add: getTransform_def)

theorem getTransform_cases_witness:
  "direction (mkSwipe ''A'' ''LEFT'' 10 5) = ''LEFT''
   \<and> getTransform (exClient ''A'' 100 50 Undefined) (mkSwipe ''A'' ''LEFT'' 10 5)
        (exClient ''B'' 80 40 Undefined) (mkSwipe ''B'' ''RIGHT'' 0 7)
      = Inr \<lparr>px = - 80, py = - 2\<rparr>
   \<and> direction (mkSwipe ''A'' ''RIGHT'' 10 5) = ''RIGHT''
   \<and> position (mkSwipe ''A'' ''RIGHT'' 10 5) = \<lparr>px = 10, py = 5\<rparr>
   \<and> client_size (exClient ''A'' 100 50 Undefined) = \<lparr>width = 100, height = 50\<rparr>
   \<and> direction (mkSwipe ''B'' ''LEFT'' 0 5) = ''LEFT''
   \<and> position (mkSwipe ''B'' ''LEFT'' 0 5) = \<lparr>px = 0, py = 5\<rparr>
   \<and> client_size (exClient ''B'' 80 40 Undefined) = \<lparr>width = 80, height = 40\<rparr>
   \<and> getTransform (exClient ''A'' 100 50 Undefined) (mkSwipe ''A'' ''RIGHT'' 10 5)
        (exClient ''B'' 80 40 Undefined) (mkSwipe ''B'' ''LEFT'' 0 5)
      = Inr \<lparr>px = 100, py = 0\<rparr>
   \<and> direction (mkSwipe ''A'' ''UP'' 10 5) = ''UP''
   \<and> getTransform (exClient ''A'' 100 50 Undefined) (mkSwipe ''A'' ''UP'' 10 5)
        (exClient ''B'' 80 40 Undefined) (mkSwipe ''B'' ''DOWN'' 4 0)
      = Inr \<lparr>px = 6, py = - 40\<rparr>
   \<and> direction (mkSwipe ''A'' ''DOWN'' 10 5) = ''DOWN''
   \<and> getTransform (exClient ''A'' 100 50 Undefined) (mkSwipe ''A'' ''DOWN'' 10 5)
        (exClient ''B'' 80 40 Undefined) (mkSwipe ''B'' ''UP'' 4 0)
      = Inr \<lparr>px = 6, py = 50\<rparr>
   \<and> direction (mkSwipe ''A'' ''left'' 10 5) \<notin> {''LEFT'', ''RIGHT'', ''UP'', ''DOWN''}
   \<and> getTransform (exClient ''A'' 100 50 Undefined) (mkSwipe ''A'' ''left'' 10 5)
        (exClient ''B'' 80 40 Undefined) (mkSwipe ''B'' ''RIGHT'' 0 5)
      = Inl (InvalidDirection ''left'')"
  using
    getTransform_cases [of "mkSwipe ''A'' ''LEFT'' 10 5" "exClient ''A'' 100 50 Undefined"
      "exClient ''B'' 80 40 Undefined" "mkSwipe ''B'' ''RIGHT'' 0 7"]
    getTransform_cases [of "mkSwipe ''A'' ''RIGHT'' 10 5" "exClient ''A'' 100 50 Undefined"
      "exClient ''B'' 80 40 Undefined" "mkSwipe ''B'' ''LEFT'' 0 5"]
    getTransform_cases [of "mkSwipe ''A'' ''UP'' 10 5" "exClient ''A'' 100 50 Undefined"
      "exClient ''B'' 80 40 Undefined" "mkSwipe ''B'' ''DOWN'' 4 0"]
    getTransform_cases [of "mkSwipe ''A'' ''DOWN'' 10 5" "exClient ''A'' 100 50 Undefined"
      "exClient ''B'' 80 40 Undefined" "mkSwipe ''B'' ''UP'' 4 0"]
    getTransform_cases [of "mkSwipe ''A'' ''left'' 10 5" "exClient ''A'' 100 50 Undefined"
      "exClient ''B'' 80 40 Undefined" "mkSwipe ''B'' ''RIGHT'' 0 5"]
  by (simp add: mkSwipe_def exClient_def)

subsection \<open>Client events\<close>

text \<open>
  C7. For every state, \<open>clientAction\<close> with an event type that has no registered
  handler fails with the unhandled-event error, which the reducer passes on to
  its caller, and no state is produced. With a registered type and a client id
  that is unknown, or known but not in a cluster (\<open>clusterId\<close> is \<open>undefined\<close>,
  \<open>null\<close> or empty), it returns the unchanged state and no error.
\<close>

theorem clientAction_dispatch:
  fixes cfg :: "('d, 'p) config" and st :: "'d state"
  shows
  "(client_events cfg ty = None \<longrightarrow>
      clientAction cfg st i ty pl = Inl (UnhandledEvent ty)
      \<and> reducer cfg e st (CLIENT_ACTION i ty pl) = Inl (UnhandledEvent ty))
   \<and> (client_events cfg ty \<noteq> None \<and> map_of (clients st) i = None \<longrightarrow>
      clientAction cfg st i ty pl = Inr st
      \<and> reducer cfg e st (CLIENT_ACTION i ty pl) = Inr st)
   \<and> (client_events cfg ty \<noteq> None
        \<and> (\<exists>c. map_of (clients st) i = Some c \<and> \<not> truthy (clusterId c)) \<longrightarrow>
      clientAction cfg st i ty pl = Inr st
      \<and> reducer cfg e st (CLIENT_ACTION i ty pl) = Inr st)"
  by (auto simp: clientAction_def split: option.splits)

theorem clientAction_dispatch_witness:
  "client_events exConfig ''zoom'' = None
   \<and> clientAction exConfig exSolo ''1'' ''zoom'' () = Inl (UnhandledEvent ''zoom'')
   \<and> client_events exConfig ''tap'' \<noteq> None
   \<and> map_of (clients exSolo) ''9'' = None
   \<and> clientAction exConfig exSolo ''9'' ''tap'' () = Inr exSolo
   \<and> (\<exists>c. map_of (clients exSolo) ''1'' = Some c \<and> \<not> truthy (clusterId c))
   \<and> clientAction exConfig exSolo ''1'' ''tap'' () = Inr exSolo"
proof -
  have zoom: "client_events exConfig ''zoom'' = None"
    and tap: "client_events exConfig ''tap'' \<noteq> None"
    by (simp_all add: exConfig_def)
  have unknown: "map_of (clients exSolo) ''9'' = None"
    by (simp add: exSolo_def connect_def initialState_def Let_def)
  have solo: "\<exists>c. map_of (clients exSolo) ''1'' = Some c \<and> \<not> truthy (clusterId c)"
    by (simp add: exSolo_def connect_def initialState_def Let_def)
  from clientAction_dispatch [of exConfig "''zoom''" exSolo "''1''" "()" "envAt ''k'' 0"] zoom
  have r1: "clientAction exConfig exSolo ''1'' ''zoom'' () = Inl (UnhandledEvent ''zoom'')"
    by blast
  from clientAction_dispatch [of exConfig "''tap''" exSolo "''9''" "()" "envAt ''k'' 0"] tap unknown
  have r2: "clientAction exConfig exSolo ''9'' ''tap'' () = Inr exSolo"
    by blast
  from clientAction_dispatch [of exConfig "''tap''" exSolo "''1''" "()" "envAt ''k'' 0"] tap solo
  have r3: "clientAction exConfig exSolo ''1'' ''tap'' () = Inr exSolo"
    by blast
  from zoom tap unknown solo r1 r2 r3 show ?thesis by blast
qed

subsection \<open>The coincidence window\<close>

text \<open>
  C2. The tolerance is 500 ms. In every state with exactly one pending swipe,
  stamped \<open>t\<close>: an incoming swipe handled when the clock reads \<open>t + 501\<close> finds
  no candidate and is queued with its own receipt time; one handled at
  \<open>t + 499\<close> finds the pending swipe as its candidate and the result of the step
  is the result of pairing the two. The pending swipe is the candidate exactly
  when less than 500 ms have passed.
\<close>

theorem swipe_window:
  fixes cfg :: "('d, 'p) config" and st :: "'d state"
  assumes "swipes st = [p]" and "timestamp p = Some t"
  shows
  "SWIPE_DELAY_TOLERANCE = 500
   \<and> (date_now e 0 = t + 501 \<longrightarrow>
        getCoincidentSwipes e (swipes st) = []
        \<and> doSwipe cfg e st sw = Inr (st\<lparr>swipes := [sw\<lparr>timestamp := Some (date_now e 1)\<rparr>]\<rparr>))
   \<and> (date_now e 0 = t + 499 \<longrightarrow>
        getCoincidentSwipes e (swipes st) = [p]
        \<and> doSwipe cfg e st sw =
            (case clusterClients cfg e st sw p of
               Inl err \<Rightarrow> Inl err
             | Inr r \<Rightarrow> Inr (st\<lparr>swipes := [], clients := clients r, clusters := clusters r\<rparr>)))
   \<and> (getCoincidentSwipes e (swipes st) = [p] \<longleftrightarrow> date_now e 0 - t < 500)"
  using assms
  by (simp add: SWIPE_DELAY_TOLERANCE_def getCoincidentSwipes_def coincident_def doSwipe_def Let_def
      addSwipe_def)

theorem swipe_window_witness:
  "swipes exPending = [(mkSwipe ''A'' ''RIGHT'' 10 5)\<lparr>timestamp := Some 1000\<rparr>]
   \<and> timestamp ((mkSwipe ''A'' ''RIGHT'' 10 5)\<lparr>timestamp := Some 1000\<rparr>) = Some 1000
   \<and> date_now (envAt ''k'' 1501) 0 = 1000 + 501
   \<and> doSwipe exConfig (envAt ''k'' 1501) exPending (mkSwipe ''B'' ''LEFT'' 0 5) =
       Inr (exPending\<lparr>swipes := [(mkSwipe ''B'' ''LEFT'' 0 5)\<lparr>timestamp := Some 1501\<rparr>]\<rparr>)
   \<and> date_now (envAt ''k'' 1499) 0 = 1000 + 499
   \<and> doSwipe exConfig (envAt ''k'' 1499) exPending (mkSwipe ''B'' ''LEFT'' 0 5) =
       Inr \<lparr>clusters = [(''k'', \<lparr>cluster_id = ''k'', cluster_data = 2\<rparr>)],
            clients =
              [(''A'', (exClient ''A'' 100 50 (Val ''k''))
                         \<lparr>transform := \<lparr>px = - 100, py = 0\<rparr>, connections := Some [''B''],
                          client_data := Some 7\<rparr>),
               (''B'', (exClient ''B'' 80 40 (Val ''k''))
                         \<lparr>connections := Some [''A''], client_data := Some 7\<rparr>)],
            swipes = []\<rparr>"
proof -
  let ?p = "(mkSwipe ''A'' ''RIGHT'' 10 5)\<lparr>timestamp := Some 1000\<rparr>"
  let ?sw = "mkSwipe ''B'' ''LEFT'' 0 5"
  have q: "swipes exPending = [?p]" by (simp add: exPending_def)
  have t: "timestamp ?p = Some 1000" by simp
  have late: "date_now (envAt ''k'' 1501) 0 = 1000 + 501"
    and early: "date_now (envAt ''k'' 1499) 0 = 1000 + 499"
    and stamp: "date_now (envAt ''k'' 1501) 1 = 1501"
    by (simp_all add: envAt_def)
  from swipe_window [OF q t, of "envAt ''k'' 1501" exConfig ?sw] late stamp
  have r1: "doSwipe exConfig (envAt ''k'' 1501) exPending ?sw =
              Inr (exPending\<lparr>swipes := [?sw\<lparr>timestamp := Some 1501\<rparr>]\<rparr>)"
    by simp
  have pair: "clusterClients exConfig (envAt ''k'' 1499) exPending ?sw ?p =
      Inr \<lparr>clusters = [(''k'', \<lparr>cluster_id = ''k'', cluster_data = 2\<rparr>)],
            clients =
              [(''A'', (exClient ''A'' 100 50 (Val ''k''))
                         \<lparr>transform := \<lparr>px = - 100, py = 0\<rparr>, connections := Some [''B''],
                          client_data := Some 7\<rparr>),
               (''B'', (exClient ''B'' 80 40 (Val ''k''))
                         \<lparr>connections := Some [''A''], client_data := Some 7\<rparr>)],
            swipes = swipes exPending\<rparr>"
    by (simp add: exPending_def envAt_def mkSwipe_def exClient_def exConfig_def clusterClients_def
        createCluster_def getTransform_def update_two_def update_key_def push_connection_def
        Let_def)
  from swipe_window [OF q t, of "envAt ''k'' 1499" exConfig ?sw] early
  have "doSwipe exConfig (envAt ''k'' 1499) exPending ?sw =
          (case clusterClients exConfig (envAt ''k'' 1499) exPending ?sw ?p of
             Inl err \<Rightarrow> Inl err
           | Inr r \<Rightarrow> Inr (exPending\<lparr>swipes := [], clients := clients r, clusters := clusters r\<rparr>))"
    by simp
  then have r2: "doSwipe exConfig (envAt ''k'' 1499) exPending ?sw =
       Inr \<lparr>clusters = [(''k'', \<lparr>cluster_id = ''k'', cluster_data = 2\<rparr>)],
            clients =
              [(''A'', (exClient ''A'' 100 50 (Val ''k''))
                         \<lparr>transform := \<lparr>px = - 100, py = 0\<rparr>, connections := Some [''B''],
                          client_data := Some 7\<rparr>),
               (''B'', (exClient ''B'' 80 40 (Val ''k''))
                         \<lparr>connections := Some [''A''], client_data := Some 7\<rparr>)],
            swipes = []\<rparr>"
    unfolding pair by (simp add: exPending_def)
  from q t late early r1 r2 show ?thesis by blast
qed

text \<open>
  C6, as the code has it. A swipe that finds no candidate stores a queue that
  holds only the incoming swipe with its receipt time: \<open>addSwipe\<close> appends to
  the filtered list, which is empty, so every entry stored before is dropped.
  A swipe that finds a candidate and pairs successfully stores the empty queue.
\<close>

theorem doSwipe_queue:
  fixes cfg :: "('d, 'p) config" and st :: "'d state"
  shows
  "(getCoincidentSwipes e (swipes st) = [] \<longrightarrow>
      doSwipe cfg e st sw =
        Inr (st\<lparr>swipes := [sw\<lparr>timestamp := Some (date_now e (length (swipes st)))\<rparr>]\<rparr>))
   \<and> (getCoincidentSwipes e (swipes st) \<noteq> [] \<and> doSwipe cfg e st sw = Inr st' \<longrightarrow>
        swipes st' = [])"
  by (auto simp: doSwipe_def Let_def addSwipe_def split: list.splits sum.splits)

theorem doSwipe_queue_witness:
  "getCoincidentSwipes (envAt ''k'' 1501) (swipes exPending) = []
   \<and> doSwipe exConfig (envAt ''k'' 1501) exPending (mkSwipe ''B'' ''LEFT'' 0 5) =
       Inr (exPending\<lparr>swipes := [(mkSwipe ''B'' ''LEFT'' 0 5)\<lparr>timestamp := Some 1501\<rparr>]\<rparr>)
   \<and> getCoincidentSwipes (envAt ''k'' 1499) (swipes exPending) \<noteq> []
   \<and> (\<exists>st'. doSwipe exConfig (envAt ''k'' 1499) exPending (mkSwipe ''B'' ''LEFT'' 0 5) = Inr st'
            \<and> swipes st' = [])"
proof -
  let ?sw = "mkSwipe ''B'' ''LEFT'' 0 5"
  have none: "getCoincidentSwipes (envAt ''k'' 1501) (swipes exPending) = []"
    and some: "getCoincidentSwipes (envAt ''k'' 1499) (swipes exPending) \<noteq> []"
    by (simp_all add: getCoincidentSwipes_def exPending_def envAt_def coincident_def
        SWIPE_DELAY_TOLERANCE_def)
  have len: "date_now (envAt ''k'' 1501) (length (swipes exPending)) = 1501"
    by (simp add: envAt_def)
  from doSwipe_queue [of "envAt ''k'' 1501" exPending exConfig ?sw] none len
  have r1: "doSwipe exConfig (envAt ''k'' 1501) exPending ?sw =
              Inr (exPending\<lparr>swipes := [?sw\<lparr>timestamp := Some 1501\<rparr>]\<rparr>)"
    by simp
  obtain st' where ok: "doSwipe exConfig (envAt ''k'' 1499) exPending ?sw = Inr st'"
    by (simp add: doSwipe_def getCoincidentSwipes_def coincident_def SWIPE_DELAY_TOLERANCE_def
        exPending_def envAt_def mkSwipe_def exClient_def exConfig_def clusterClients_def
        createCluster_def getTransform_def update_two_def update_key_def push_connection_def
        Let_def)
  from doSwipe_queue [of "envAt ''k'' 1499" exPending exConfig ?sw st'] some ok
  have "swipes st' = []" by blast
  with ok none some r1 show ?thesis by blast
qed

text \<open>
  The claim C6 says that a swipe without a match leaves older entries in the
  queue. Here the stored entry of time 1000 is out of the window at time 1501,
  nothing matches, and the queue stored by the step does not hold it any more.
\<close>

theorem stale_swipe_dropped:
  "getCoincidentSwipes (envAt ''k'' 1501) (swipes exPending) = []
   \<and> (mkSwipe ''A'' ''RIGHT'' 10 5)\<lparr>timestamp := Some 1000\<rparr> \<in> set (swipes exPending)
   \<and> doSwipe exConfig (envAt ''k'' 1501) exPending (mkSwipe ''B'' ''LEFT'' 0 5) =
       Inr (exPending\<lparr>swipes := [(mkSwipe ''B'' ''LEFT'' 0 5)\<lparr>timestamp := Some 1501\<rparr>]\<rparr>)
   \<and> (mkSwipe ''A'' ''RIGHT'' 10 5)\<lparr>timestamp := Some 1000\<rparr>
        \<notin> set (swipes (exPending\<lparr>swipes := [(mkSwipe ''B'' ''LEFT'' 0 5)\<lparr>timestamp := Some 1501\<rparr>]\<rparr>))"
  by (simp add: doSwipe_def Let_def addSwipe_def getCoincidentSwipes_def coincident_def
      SWIPE_DELAY_TOLERANCE_def exPending_def envAt_def mkSwipe_def)

subsection \<open>Connecting and the first pairing\<close>

lemma connect_stores:
  fixes cfg :: "('d, 'p) config" and st :: "'d state" and i :: string and sz :: dims and e :: env
  defines "client \<equiv>
    \<lparr>client_id = i, client_size = sz, transform = \<lparr>px = 0, py = 0\<rparr>,
     adjacentClientIDs = Some [], clusterID = Some (uid e), clusterId = Undefined,
     connections = None, client_data = None\<rparr>"
  shows "map_of (clients (connect cfg e st i sz)) i
           = Some (client\<lparr>client_data := Some (client_init cfg (InitClient client))\<rparr>)"
    and "map_of (clusters (connect cfg e st i sz)) (uid e)
           = Some \<lparr>cluster_id = uid e, cluster_data = cluster_init cfg (InitClient client)\<rparr>"
    and "swipes (connect cfg e st i sz) = swipes st"
  by (simp_all add: connect_def client_def Let_def update_conv')

text \<open>
  C9, at the first connect. The client that \<open>connect\<close> stores has the given id
  and size, the transform (0, 0) and the data of the client-init hook, and a
  cluster record with the data of the cluster-init hook is stored with it. The
  empty list is stored in the field \<open>adjacentClientIDs\<close>; the client has no
  field \<open>connections\<close>.
\<close>

theorem connect_first_client:
  "connect exConfig (envAt ''c1'' 1000) initialState ''1'' \<lparr>width = 100, height = 100\<rparr> =
     \<lparr>clusters = [(''c1'', \<lparr>cluster_id = ''c1'', cluster_data = 1\<rparr>)],
      clients =
        [(''1'', \<lparr>client_id = ''1'', client_size = \<lparr>width = 100, height = 100\<rparr>,
                  transform = \<lparr>px = 0, py = 0\<rparr>, adjacentClientIDs = Some [],
                  clusterID = Some ''c1'', clusterId = Undefined, connections = None,
                  client_data = Some 7\<rparr>)],
      swipes = []\<rparr>"
  by (simp add: connect_def initialState_def exConfig_def envAt_def Let_def)

text \<open>
  C4, at the first connect. The state reached from the initial state by one
  connect holds the cluster record \<open>c1\<close>, and no client is a member of \<open>c1\<close>:
  the new client keeps the cluster id in \<open>clusterID\<close>, and \<open>clusterId\<close>, the
  field that membership reads, is absent.
\<close>

theorem connect_leaves_memberless_cluster:
  fixes cfg :: "('d, 'p) config"
  shows
  "\<exists>st. run cfg initialState [(envAt ''c1'' 1000, CONNECT ''1'' \<lparr>width = 100, height = 100\<rparr>)]
           = Inr st
        \<and> map_of (clusters st) ''c1''
            = Some \<lparr>cluster_id = ''c1'',
                    cluster_data = cluster_init cfg (InitClient
                      \<lparr>client_id = ''1'', client_size = \<lparr>width = 100, height = 100\<rparr>,
                       transform = \<lparr>px = 0, py = 0\<rparr>, adjacentClientIDs = Some [],
                       clusterID = Some ''c1'', clusterId = Undefined, connections = None,
                       client_data = None\<rparr>)\<rparr>
        \<and> getClientsInCluster (clients st) (Val ''c1'') = []"
  by (simp add: connect_def initialState_def envAt_def getClientsInCluster_def Let_def)

text \<open>
  C1, the scenario. Two clients of size 100 x 100 connect, client 1 swipes
  RIGHT at (50, 50) and client 2 swipes LEFT at (50, 50) 98 ms later. The
  second swipe finds the first, neither client has a \<open>clusterId\<close>, and
  \<open>createCluster\<close> pushes the partner's id onto the \<open>connections\<close> of a client
  that \<open>connect\<close> created without that field: the step throws, whatever the
  embedder's hooks are.
\<close>

theorem pairing_scenario_throws:
  fixes cfg :: "('d, 'p) config"
  shows
  "run cfg initialState
     [(envAt ''c1'' 1000, CONNECT ''1'' \<lparr>width = 100, height = 100\<rparr>),
      (envAt ''c2'' 1001, CONNECT ''2'' \<lparr>width = 100, height = 100\<rparr>),
      (envAt ''c3'' 1002, SWIPE (mkSwipe ''1'' ''RIGHT'' 50 50)),
      (envAt ''c4'' 1100, SWIPE (mkSwipe ''2'' ''LEFT'' 50 50))]
   = Inl (InvariantViolation ''$push'')"
  by (simp add: envAt_def initialState_def connect_def doSwipe_def getCoincidentSwipes_def
      addSwipe_def mkSwipe_def coincident_def SWIPE_DELAY_TOLERANCE_def clusterClients_def
      createCluster_def getTransform_def update_two_def update_key_def push_connection_def
      Let_def)

subsection \<open>What the states reached from the initial state look like\<close>

text \<open>
  Every step that returns keeps the clients unpaired: \<open>connect\<close> adds such a
  client, and a swipe that finds a candidate throws, for a missing client, an
  invalid direction or the missing \<open>connections\<close>. So no state reached from
  the initial state has a client with a \<open>clusterId\<close>, every cluster record
  there has no member, and no pairing succeeds.
\<close>

lemma set_update_subset: "set (AList.update k v al) \<subseteq> insert (k, v) (set al)"
  by (induction al) auto

lemma set_delete_subset: "set (AList.delete k al) \<subseteq> set al"
  by (auto simp: AList.delete_eq)

lemma unpaired_lookup:
  "unpaired st \<Longrightarrow> map_of (clients st) k = Some v \<Longrightarrow>
   client_id v = k \<and> clusterId v = Undefined \<and> connections v = None"
  by (auto simp: unpaired_def dest: map_of_SomeD)

lemma update_key_push_fails:
  assumes "\<forall>(k, v) \<in> set obj. connections v = None"
    and "\<And>v. connections (g v) = connections v"
  shows "update_key k (\<lambda>c. push_connection i (g c)) obj = Inl TypeError
         \<or> update_key k (\<lambda>c. push_connection i (g c)) obj = Inl (InvariantViolation ''$push'')"
proof (cases "map_of obj k")
  case None
  then show ?thesis by (simp add: update_key_def)
next
  case (Some v)
  then have "(k, v) \<in> set obj" by (rule map_of_SomeD)
  with assms(1) have "connections v = None" by auto
  with assms(2) Some show ?thesis by (simp add: update_key_def push_connection_def)
qed

lemma update_two_push_fails:
  assumes "\<forall>(k, v) \<in> set obj. connections v = None"
    and "\<And>v. connections (ga v) = connections v" and "\<And>v. connections (gb v) = connections v"
  shows "\<exists>err. update_two ka (\<lambda>c. push_connection ia (ga c)) kb (\<lambda>c. push_connection ib (gb c)) obj
           = Inl err"
  using update_key_push_fails [OF assms(1,2), of ka ia]
    update_key_push_fails [OF assms(1,3), of kb ib]
  by (auto simp: update_two_def)

lemma createCluster_unpaired_fails:
  assumes "unpaired st"
  shows "\<exists>err. createCluster cfg e st a sa b sb = Inl err"
proof -
  from assms have none: "\<forall>(k, v) \<in> set (clients st). connections v = None"
    by (auto simp: unpaired_def)
  show ?thesis
  proof (cases "getTransform a sa b sb")
    case (Inl err)
    then show ?thesis by (simp add: createCluster_def Let_def)
  next
    case (Inr t)
    let ?ga = "\<lambda>c::'a client. c\<lparr>clusterId := Val (uid e),
        client_data := Some (client_init cfg (InitInCluster
          \<lparr>arg_data = ClusterData (cluster_init cfg (InitMembers [a, b])),
           arg_clients = [a, b]\<rparr> a))\<rparr>"
    let ?gb = "\<lambda>c::'a client. c\<lparr>clusterId := Val (uid e),
        client_data := Some (client_init cfg (InitInCluster
          \<lparr>arg_data = ClusterData (cluster_init cfg (InitMembers [a, b])),
           arg_clients = [a, b]\<rparr> b)),
        transform := t\<rparr>"
    from update_two_push_fails [OF none, of ?ga ?gb "client_id a" "swipe_id sb" "client_id b" "swipe_id sa"]
    obtain err where "update_two (client_id a) (\<lambda>c. push_connection (swipe_id sb) (?ga c))
        (client_id b) (\<lambda>c. push_connection (swipe_id sa) (?gb c)) (clients st) = Inl err"
      by auto
    with Inr show ?thesis by (simp add: createCluster_def Let_def)
  qed
qed

lemma clusterClients_unpaired_fails:
  assumes "unpaired st"
  shows "\<exists>err. clusterClients cfg e st sw pend = Inl err"
proof (cases "map_of (clients st) (swipe_id sw)")
  case None
  then show ?thesis by (simp add: clusterClients_def)
next
  case a: (Some a)
  from unpaired_lookup [OF assms a] have fa: "\<not> truthy (clusterId a)" by simp
  show ?thesis
  proof (cases "map_of (clients st) (swipe_id pend)")
    case None
    with a fa show ?thesis by (simp add: clusterClients_def)
  next
    case b: (Some b)
    from unpaired_lookup [OF assms b] have fb: "\<not> truthy (clusterId b)" by simp
    from createCluster_unpaired_fails [OF assms, of cfg e a sw b pend] a b fa fb
    show ?thesis by (simp add: clusterClients_def)
  qed
qed

lemma unpaired_no_changes:
  assumes "unpaired st"
  shows "getAllClientsChanges st next = []"
proof -
  from assms have "\<forall>(k, v) \<in> set (clients st). \<not> hasCluster v"
    by (auto simp: unpaired_def hasCluster_def)
  then have "filter (\<lambda>(k, c). hasCluster c) (clients st) = []"
    by (auto simp: filter_empty_conv)
  then show ?thesis by (simp add: getAllClientsChanges_def)
qed

lemma unpaired_step:
  assumes inv: "unpaired st" and ok: "reducer cfg e st act = Inr st'"
  shows "unpaired st'"
proof (cases act)
  case NEXT_STATE
  with ok have "clients st' = clients st"
    by (cases "client_events cfg ''update''")
       (auto simp: nextState_def Let_def unpaired_no_changes [OF inv] split: sum.splits)
  with inv show ?thesis by (simp add: unpaired_def)
next
  case (CLIENT_ACTION j ty pl)
  with ok have "st' = st"
    by (auto simp: clientAction_def dest: unpaired_lookup [OF inv]
        split: option.splits if_splits)
  with inv show ?thesis by simp
next
  case (CONNECT j sz)
  let ?client = "\<lparr>client_id = j, client_size = sz, transform = \<lparr>px = 0, py = 0\<rparr>,
                  adjacentClientIDs = Some [], clusterID = Some (uid e),
                  clusterId = Undefined, connections = None,
                  client_data = (None :: 'a option)\<rparr>"
  let ?stored = "?client\<lparr>client_data := Some (client_init cfg (InitClient ?client))\<rparr>"
  from ok CONNECT have cl: "clients st' = AList.update j ?stored (clients st)"
    by (auto simp: connect_def Let_def)
  have "distinct (map fst (clients st'))"
    unfolding cl using inv by (simp add: unpaired_def distinct_update)
  moreover have "\<forall>(k, v) \<in> set (clients st').
      client_id v = k \<and> clusterId v = Undefined \<and> connections v = None"
  proof -
    have "\<forall>(k, v) \<in> insert (j, ?stored) (set (clients st)).
      client_id v = k \<and> clusterId v = Undefined \<and> connections v = None"
      using inv by (auto simp: unpaired_def)
    with set_update_subset [of j ?stored "clients st"] show ?thesis
      unfolding cl by blast
  qed
  ultimately show ?thesis by (simp add: unpaired_def)
next
  case (SWIPE s)
  show ?thesis
  proof (cases "getCoincidentSwipes e (swipes st)")
    case Nil
    with ok SWIPE have "clients st' = clients st"
      by (auto simp: doSwipe_def Let_def addSwipe_def)
    with inv show ?thesis by (simp add: unpaired_def)
  next
    case (Cons p rest)
    from clusterClients_unpaired_fails [OF inv, of cfg e s p] ok SWIPE Cons
    show ?thesis by (auto simp: doSwipe_def Let_def)
  qed
next
  case (LEAVE_CLUSTER j)
  with ok have "st' = st"
    by (auto simp: leaveCluster_def dest: unpaired_lookup [OF inv] split: option.splits)
  with inv show ?thesis by simp
next
  case (DISCONNECT j)
  show ?thesis
  proof (cases "map_of (clients st) j")
    case None
    with ok DISCONNECT have "st' = st" by (simp add: disconnect_def)
    with inv show ?thesis by simp
  next
    case (Some c)
    with ok DISCONNECT have cl: "clients st' = AList.delete j (clients st)"
      by (auto simp: disconnect_def)
    from inv set_delete_subset [of j "clients st"] show ?thesis
      unfolding unpaired_def cl by (auto simp: distinct_delete)
  qed
next
  case OTHER
  with ok inv show ?thesis by simp
qed

lemma unpaired_run:
  "unpaired st \<Longrightarrow> run cfg st acts = Inr st' \<Longrightarrow> unpaired st'"
proof (induction acts arbitrary: st)
  case Nil
  then show ?case by simp
next
  case (Cons ea acts)
  obtain e a where ea: "ea = (e, a)" by (cases ea)
  from Cons.prems(2) ea obtain mid where mid: "reducer cfg e st a = Inr mid"
    and rest: "run cfg mid acts = Inr st'"
    by (auto split: sum.splits)
  from Cons.IH [OF unpaired_step [OF Cons.prems(1) mid] rest] show ?case .
qed

lemma reachable_unpaired:
  "run cfg initialState acts = Inr st \<Longrightarrow> unpaired st"
  by (rule unpaired_run [of initialState]) (simp_all add: unpaired_def initialState_def)

lemma reachable_pairing_throws:
  assumes "run cfg initialState acts = Inr st" and "getCoincidentSwipes e (swipes st) \<noteq> []"
  shows "\<exists>err. doSwipe cfg e st sw = Inl err"
proof -
  from assms(2) obtain p rest where cand: "getCoincidentSwipes e (swipes st) = p # rest"
    by (cases "getCoincidentSwipes e (swipes st)") auto
  from clusterClients_unpaired_fails [OF reachable_unpaired [OF assms(1)], of cfg e sw p]
  show ?thesis by (auto simp: doSwipe_def Let_def cand)
qed

lemma reachable_clusters_memberless:
  assumes "run cfg initialState acts = Inr st"
  shows "getClientsInCluster (clients st) (Val k) = []"
  using reachable_unpaired [OF assms]
  by (auto simp: unpaired_def getClientsInCluster_def filter_empty_conv)

subsection \<open>Leaving and disconnecting\<close>

lemma members_delete:
  "distinct (map fst cls) \<Longrightarrow> map_of cls i = Some c \<Longrightarrow> clusterId c = cid \<Longrightarrow>
   length (getClientsInCluster cls cid) = Suc (length (getClientsInCluster (AList.delete i cls) cid))"
proof (induction cls)
  case Nil
  then show ?case by simp
next
  case (Cons p cls)
  obtain k v where p: "p = (k, v)" by (cases p)
  show ?case
  proof (cases "k = i")
    case True
    with Cons.prems p have "v = c" and "i \<notin> fst ` set cls" by auto
    then show ?thesis using True p Cons.prems
      by (simp add: getClientsInCluster_def)
  next
    case False
    with Cons.prems p have "distinct (map fst cls)" and "map_of cls i = Some c" by auto
    from Cons.IH [OF this Cons.prems(3)] show ?thesis using False p
      by (simp add: getClientsInCluster_def)
  qed
qed

lemma members_update_other:
  "distinct (map fst cls) \<Longrightarrow> map_of cls i = Some c \<Longrightarrow> clusterId c = cid \<Longrightarrow>
   clusterId c' \<noteq> cid \<Longrightarrow>
   length (getClientsInCluster cls cid) = Suc (length (getClientsInCluster (AList.update i c' cls) cid))"
proof (induction cls)
  case Nil
  then show ?case by simp
next
  case (Cons p cls)
  obtain k v where p: "p = (k, v)" by (cases p)
  show ?case
  proof (cases "k = i")
    case True
    with Cons.prems p have "v = c" by auto
    then show ?thesis using True p Cons.prems
      by (simp add: getClientsInCluster_def)
  next
    case False
    with Cons.prems p have "distinct (map fst cls)" and "map_of cls i = Some c" by auto
    from Cons.IH [OF this Cons.prems(3,4)] show ?thesis using False p
      by (simp add: getClientsInCluster_def)
  qed
qed

text \<open>
  C3, as the code has it. \<open>removeEmptyCluster\<close> counts the members before the
  client has left. For every state with distinct client keys and every stored
  client whose \<open>clusterId\<close> holds a cluster id: \<open>leaveCluster\<close> sets the client's
  \<open>clusterId\<close> to null and keeps the record, \<open>disconnect\<close> removes the record,
  and both delete the cluster record exactly when no member remains afterwards;
  a cluster with one remaining member is kept. The departing client was one of
  the members counted before.
\<close>

theorem departure_cleanup:
  fixes st :: "'d state"
  assumes keys: "distinct (map fst (clients st))"
    and known: "map_of (clients st) i = Some c"
    and clustered: "clusterId c = Val k"
  shows
  "clients (leaveCluster st i) = AList.update i (c\<lparr>clusterId := Null\<rparr>) (clients st)
   \<and> map_of (clients (leaveCluster st i)) i = Some (c\<lparr>clusterId := Null\<rparr>)
   \<and> clusters (leaveCluster st i) =
       (if getClientsInCluster (clients (leaveCluster st i)) (Val k) = []
        then AList.delete k (clusters st) else clusters st)
   \<and> clients (disconnect st i) = AList.delete i (clients st)
   \<and> map_of (clients (disconnect st i)) i = None
   \<and> clusters (disconnect st i) =
       (if getClientsInCluster (clients (disconnect st i)) (Val k) = []
        then AList.delete k (clusters st) else clusters st)
   \<and> length (getClientsInCluster (clients st) (Val k)) =
       Suc (length (getClientsInCluster (clients (leaveCluster st i)) (Val k)))
   \<and> length (getClientsInCluster (clients st) (Val k)) =
       Suc (length (getClientsInCluster (clients (disconnect st i)) (Val k)))"
proof -
  let ?n = "length (getClientsInCluster (clients st) (Val k))"
  have leave_cl: "clients (leaveCluster st i) = AList.update i (c\<lparr>clusterId := Null\<rparr>) (clients st)"
    using known clustered by (simp add: leaveCluster_def)
  have disc_cl: "clients (disconnect st i) = AList.delete i (clients st)"
    using known by (simp add: disconnect_def)
  have n_leave: "?n = Suc (length (getClientsInCluster (clients (leaveCluster st i)) (Val k)))"
    unfolding leave_cl using members_update_other [OF keys known clustered] by simp
  have n_disc: "?n = Suc (length (getClientsInCluster (clients (disconnect st i)) (Val k)))"
    unfolding disc_cl using members_delete [OF keys known clustered] by simp
  have leave_cs: "clusters (leaveCluster st i) = removeEmptyCluster (clusters st) (clients st) (Val k)"
    using known clustered by (simp add: leaveCluster_def)
  have disc_cs: "clusters (disconnect st i) = removeEmptyCluster (clusters st) (clients st) (Val k)"
    using known clustered by (simp add: disconnect_def)
  have rule: "removeEmptyCluster (clusters st) (clients st) (Val k) =
                (if ?n \<le> 1 then AList.delete k (clusters st) else clusters st)"
    by (simp add: removeEmptyCluster_def)
  have l3: "clusters (leaveCluster st i) =
       (if getClientsInCluster (clients (leaveCluster st i)) (Val k) = []
        then AList.delete k (clusters st) else clusters st)"
    unfolding leave_cs rule using n_leave by auto
  have d3: "clusters (disconnect st i) =
       (if getClientsInCluster (clients (disconnect st i)) (Val k) = []
        then AList.delete k (clusters st) else clusters st)"
    unfolding disc_cs rule using n_disc by auto
  have l2: "map_of (clients (leaveCluster st i)) i = Some (c\<lparr>clusterId := Null\<rparr>)"
    unfolding leave_cl by (simp add: update_conv')
  have d2: "map_of (clients (disconnect st i)) i = None"
    unfolding disc_cl by (simp add: delete_conv')
  from leave_cl l2 l3 disc_cl d2 d3 n_leave n_disc show ?thesis by blast
qed

theorem departure_cleanup_witness:
  "distinct (map fst (clients exDuo))
   \<and> map_of (clients exDuo) ''A'' = Some (exClient ''A'' 100 50 (Val ''k''))
   \<and> clusterId (exClient ''A'' 100 50 (Val ''k'')) = Val ''k''
   \<and> map_of (clients (leaveCluster exDuo ''A'')) ''A'' = Some (exClient ''A'' 100 50 Null)
   \<and> clusters (leaveCluster exDuo ''A'') = clusters exDuo
   \<and> map_of (clients (disconnect exDuo ''A'')) ''A'' = None
   \<and> clusters (disconnect exDuo ''A'') = clusters exDuo
   \<and> distinct (map fst (clients exLast))
   \<and> map_of (clients exLast) ''B'' = Some (exClient ''B'' 80 40 (Val ''k''))
   \<and> clusterId (exClient ''B'' 80 40 (Val ''k'')) = Val ''k''
   \<and> clusters (leaveCluster exLast ''B'') = []
   \<and> clusters (disconnect exLast ''B'') = []"
proof -
  let ?a = "exClient ''A'' 100 50 (Val ''k'')"
  let ?b = "exClient ''B'' 80 40 (Val ''k'')"
  have k1: "distinct (map fst (clients exDuo))"
    and a1: "map_of (clients exDuo) ''A'' = Some ?a"
    and c1: "clusterId ?a = Val ''k''"
    by (simp_all add: exDuo_def exClient_def)
  have k2: "distinct (map fst (clients exLast))"
    and b2: "map_of (clients exLast) ''B'' = Some ?b"
    and c2: "clusterId ?b = Val ''k''"
    by (simp_all add: exLast_def exClient_def)
  note first = departure_cleanup [OF k1 a1 c1]
  note last = departure_cleanup [OF k2 b2 c2]
  note first_record = first [THEN conjunct2, THEN conjunct1]
  note first_leave = first [THEN conjunct2, THEN conjunct2, THEN conjunct1]
  note first_gone = first [THEN conjunct2, THEN conjunct2, THEN conjunct2, THEN conjunct2,
      THEN conjunct1]
  note first_disc = first [THEN conjunct2, THEN conjunct2, THEN conjunct2, THEN conjunct2,
      THEN conjunct2, THEN conjunct1]
  note last_leave = last [THEN conjunct2, THEN conjunct2, THEN conjunct1]
  note last_disc = last [THEN conjunct2, THEN conjunct2, THEN conjunct2, THEN conjunct2,
      THEN conjunct2, THEN conjunct1]
  have rest1: "getClientsInCluster (clients (leaveCluster exDuo ''A'')) (Val ''k'') \<noteq> []"
    and rest2: "getClientsInCluster (clients (disconnect exDuo ''A'')) (Val ''k'') \<noteq> []"
    by (simp_all add: exDuo_def exClient_def leaveCluster_def disconnect_def
        getClientsInCluster_def)
  have none1: "getClientsInCluster (clients (leaveCluster exLast ''B'')) (Val ''k'') = []"
    and none2: "getClientsInCluster (clients (disconnect exLast ''B'')) (Val ''k'') = []"
    by (simp_all add: exLast_def exClient_def leaveCluster_def disconnect_def
        getClientsInCluster_def)
  have cleared: "?a\<lparr>clusterId := Null\<rparr> = exClient ''A'' 100 50 Null"
    by (simp add: exClient_def)
  have r1: "map_of (clients (leaveCluster exDuo ''A'')) ''A'' = Some (exClient ''A'' 100 50 Null)"
    using first_record cleared by simp
  have r2: "clusters (leaveCluster exDuo ''A'') = clusters exDuo"
    using first_leave rest1 by simp
  have r3: "map_of (clients (disconnect exDuo ''A'')) ''A'' = None"
    by (rule first_gone)
  have r4: "clusters (disconnect exDuo ''A'') = clusters exDuo"
    using first_disc rest2 by simp
  have cs: "AList.delete ''k'' (clusters exLast) = []"
    by (simp add: exLast_def)
  have r5: "clusters (leaveCluster exLast ''B'') = []"
    using last_leave none1 cs by simp
  have r6: "clusters (disconnect exLast ''B'') = []"
    using last_disc none2 cs by simp
  from k1 a1 c1 r1 r2 r3 r4 k2 b2 c2 r5 r6 show ?thesis by blast
qed

text \<open>
  The claim C3 deletes the cluster when at most one member remains. In a
  cluster of two, one member remains after the other leaves or disconnects,
  and the cluster record is still there.
\<close>

theorem one_member_left_cluster_kept:
  "map_of (clients exDuo) ''A'' = Some (exClient ''A'' 100 50 (Val ''k''))
   \<and> getClientsInCluster (clients (leaveCluster exDuo ''A'')) (Val ''k'')
       = [exClient ''B'' 80 40 (Val ''k'')]
   \<and> map_of (clusters (leaveCluster exDuo ''A'')) ''k''
       = Some \<lparr>cluster_id = ''k'', cluster_data = 2\<rparr>
   \<and> getClientsInCluster (clients (disconnect exDuo ''A'')) (Val ''k'')
       = [exClient ''B'' 80 40 (Val ''k'')]
   \<and> map_of (clusters (disconnect exDuo ''A'')) ''k''
       = Some \<lparr>cluster_id = ''k'', cluster_data = 2\<rparr>"
  by (simp add: exDuo_def exClient_def leaveCluster_def disconnect_def removeEmptyCluster_def
      getClientsInCluster_def)

subsection \<open>Joining a cluster\<close>

lemma update_two_distinct:
  assumes "map_of obj ka = Some va" and "map_of obj kb = Some vb" and "ka \<noteq> kb"
    and "fa va = Inr va'" and "fb vb = Inr vb'"
  shows "update_two ka fa kb fb obj = Inr (AList.update kb vb' (AList.update ka va' obj))"
  using assms by (simp add: update_two_def update_key_def update_conv')

lemma joinCluster_result:
  fixes cfg :: "('d, 'p) config" and st :: "'d state"
  assumes h: "map_of (clients st) (client_id h) = Some h"
    and j: "map_of (clients st) (client_id j) = Some j"
    and diff: "client_id h \<noteq> client_id j"
    and hc: "connections h = Some hc" and jc: "connections j = Some jc"
    and t: "getTransform h hs j js = Inr t"
  shows "joinCluster cfg st h hs (Some j) js =
     Inr (st\<lparr>clients :=
            AList.update (client_id j)
              (j\<lparr>clusterId := clusterId h,
                 client_data := Some (client_init cfg (InitInCluster
                    \<lparr>arg_data = ClusterRecord (map_of (clusters st) (key_of (clusterId h))),
                     arg_clients = getClientsInCluster (clients st) (clusterId h) @ [j]\<rparr> j)),
                 transform := t,
                 connections := Some (jc @ [swipe_id hs])\<rparr>)
              (AList.update (client_id h) (h\<lparr>connections := Some (hc @ [swipe_id js])\<rparr>)
                 (clients st))\<rparr>)"
proof -
  have "update_two (client_id h) (push_connection (swipe_id js)) (client_id j)
          (\<lambda>c. push_connection (swipe_id hs)
             (c\<lparr>clusterId := clusterId h,
                client_data := Some (client_init cfg (InitInCluster
                    \<lparr>arg_data = ClusterRecord (map_of (clusters st) (key_of (clusterId h))),
                     arg_clients = getClientsInCluster (clients st) (clusterId h) @ [j]\<rparr> j)),
                transform := t\<rparr>))
          (clients st)
        = Inr (AList.update (client_id j)
              (j\<lparr>clusterId := clusterId h,
                 client_data := Some (client_init cfg (InitInCluster
                    \<lparr>arg_data = ClusterRecord (map_of (clusters st) (key_of (clusterId h))),
                     arg_clients = getClientsInCluster (clients st) (clusterId h) @ [j]\<rparr> j)),
                 transform := t,
                 connections := Some (jc @ [swipe_id hs])\<rparr>)
              (AList.update (client_id h) (h\<lparr>connections := Some (hc @ [swipe_id js])\<rparr>)
                 (clients st)))"
    by (rule update_two_distinct [OF h j diff]) (simp_all add: push_connection_def hc jc)
  then show ?thesis
    by (simp add: joinCluster_def t Let_def)
qed

text \<open>
  C5, as the code has it. Take a swipe that finds a candidate, both swipes from
  different stored clients, one of them in a cluster: the incoming swipe's
  client is the host when it has a cluster, else the pending swipe's client is.
  When both clients have a \<open>connections\<close> array and the host's direction is
  valid, the step clears the queue, appends each partner's id to the other's
  \<open>connections\<close>, and gives the joining client the host's \<open>clusterId\<close>, the
  transform computed from the host and the host's swipe, and the data of the
  client-init hook applied to the cluster object (the host's cluster record and
  its current members followed by the joining client) and the joining client.
  The cluster records are not touched: the cluster-init hook is not called.
\<close>

theorem join_result:
  fixes cfg :: "('d, 'p) config" and st :: "'d state"
  assumes cand: "getCoincidentSwipes e (swipes st) = pend # rest"
    and a: "map_of (clients st) (swipe_id sw) = Some a" and a_id: "client_id a = swipe_id sw"
    and b: "map_of (clients st) (swipe_id pend) = Some b" and b_id: "client_id b = swipe_id pend"
    and diff: "swipe_id sw \<noteq> swipe_id pend"
    and role: "(truthy (clusterId a) \<and> h = a \<and> hs = sw \<and> j = b \<and> js = pend)
               \<or> (\<not> truthy (clusterId a) \<and> truthy (clusterId b)
                   \<and> h = b \<and> hs = pend \<and> j = a \<and> js = sw)"
    and hc: "connections h = Some hc" and jc: "connections j = Some jc"
    and t: "getTransform h hs j js = Inr t"
  shows "doSwipe cfg e st sw =
     Inr (st\<lparr>swipes := [],
             clients :=
               AList.update (client_id j)
                 (j\<lparr>clusterId := clusterId h,
                    client_data := Some (client_init cfg (InitInCluster
                       \<lparr>arg_data = ClusterRecord (map_of (clusters st) (key_of (clusterId h))),
                        arg_clients = getClientsInCluster (clients st) (clusterId h) @ [j]\<rparr> j)),
                    transform := t,
                    connections := Some (jc @ [swipe_id hs])\<rparr>)
                 (AList.update (client_id h) (h\<lparr>connections := Some (hc @ [swipe_id js])\<rparr>)
                    (clients st))\<rparr>)"
proof -
  from role a a_id b b_id diff
  have h: "map_of (clients st) (client_id h) = Some h"
    and j: "map_of (clients st) (client_id j) = Some j"
    and d: "client_id h \<noteq> client_id j"
    by auto
  from role a b
  have "clusterClients cfg e st sw pend = joinCluster cfg st h hs (Some j) js"
    by (auto simp: clusterClients_def)
  then show ?thesis
    by (simp add: doSwipe_def Let_def cand joinCluster_result [OF h j d hc jc t])
qed

theorem join_result_witness:
  "getCoincidentSwipes (envAt ''u'' 1499) (swipes exJoin)
     = [(mkSwipe ''A'' ''RIGHT'' 10 5)\<lparr>timestamp := Some 1000\<rparr>]
   \<and> map_of (clients exJoin) ''C'' = Some (exClient ''C'' 60 30 Undefined)
   \<and> map_of (clients exJoin) ''A'' = Some (exClient ''A'' 100 50 (Val ''k''))
   \<and> \<not> truthy (clusterId (exClient ''C'' 60 30 Undefined))
   \<and> truthy (clusterId (exClient ''A'' 100 50 (Val ''k'')))
   \<and> getTransform (exClient ''A'' 100 50 (Val ''k''))
        ((mkSwipe ''A'' ''RIGHT'' 10 5)\<lparr>timestamp := Some 1000\<rparr>)
        (exClient ''C'' 60 30 Undefined) (mkSwipe ''C'' ''LEFT'' 0 5)
       = Inr \<lparr>px = 100, py = 0\<rparr>
   \<and> doSwipe exConfig (envAt ''u'' 1499) exJoin (mkSwipe ''C'' ''LEFT'' 0 5) = Inr exJoined"
proof -
  let ?pend = "(mkSwipe ''A'' ''RIGHT'' 10 5)\<lparr>timestamp := Some 1000\<rparr>"
  let ?sw = "mkSwipe ''C'' ''LEFT'' 0 5"
  let ?a = "exClient ''C'' 60 30 Undefined"
  let ?b = "exClient ''A'' 100 50 (Val ''k'')"
  have cand: "getCoincidentSwipes (envAt ''u'' 1499) (swipes exJoin) = ?pend # []"
    by (simp add: getCoincidentSwipes_def coincident_def SWIPE_DELAY_TOLERANCE_def exJoin_def
        envAt_def mkSwipe_def)
  have a: "map_of (clients exJoin) (swipe_id ?sw) = Some ?a"
    and a_id: "client_id ?a = swipe_id ?sw"
    and b: "map_of (clients exJoin) (swipe_id ?pend) = Some ?b"
    and b_id: "client_id ?b = swipe_id ?pend"
    and diff: "swipe_id ?sw \<noteq> swipe_id ?pend"
    by (simp_all add: exJoin_def mkSwipe_def exClient_def)
  have ta: "\<not> truthy (clusterId ?a)" and tb: "truthy (clusterId ?b)"
    by (simp_all add: exClient_def)
  then have role: "(truthy (clusterId ?a) \<and> ?b = ?a \<and> ?pend = ?sw \<and> ?a = ?b \<and> ?sw = ?pend)
               \<or> (\<not> truthy (clusterId ?a) \<and> truthy (clusterId ?b)
                   \<and> ?b = ?b \<and> ?pend = ?pend \<and> ?a = ?a \<and> ?sw = ?sw)"
    by simp
  have hc: "connections ?b = Some []" and jc: "connections ?a = Some []"
    by (simp_all add: exClient_def)
  have t: "getTransform ?b ?pend ?a ?sw = Inr \<lparr>px = 100, py = 0\<rparr>"
    by (simp add: getTransform_def mkSwipe_def exClient_def)
  have "doSwipe exConfig (envAt ''u'' 1499) exJoin ?sw = Inr exJoined"
    unfolding join_result [of "envAt ''u'' 1499" exJoin ?pend "[]" ?sw ?a ?b ?b ?pend ?a ?sw
        "[]" "[]" "\<lparr>px = 100, py = 0\<rparr>" exConfig, OF cand a a_id b b_id diff role hc jc t]
    by (simp add: exJoin_def exJoined_def mkSwipe_def exClient_def exConfig_def)
  with cand a b ta tb t show ?thesis by (simp add: mkSwipe_def)
qed

text \<open>
  The claim C5 has the host cluster's data recomputed from the full member
  list. Client \<open>C\<close> joins the cluster \<open>k\<close> of \<open>A\<close> and \<open>B\<close>, whose data is 2;
  the cluster-init hook of the example counts the members it is given and
  would give 3 for the three members, and the data is still 2 after the join.
\<close>

theorem join_keeps_cluster_data:
  "doSwipe exConfig (envAt ''u'' 1499) exJoin (mkSwipe ''C'' ''LEFT'' 0 5) = Inr exJoined
   \<and> map_of (clusters exJoined) ''k'' = Some \<lparr>cluster_id = ''k'', cluster_data = 2\<rparr>
   \<and> cluster_init exConfig (InitMembers (getClientsInCluster (clients exJoined) (Val ''k''))) = 3
   \<and> cluster_init exConfig
        (InitMembers (getClientsInCluster (clients exJoin) (Val ''k'')
                        @ [exClient ''C'' 60 30 Undefined])) = 3"
  by (simp add: doSwipe_def getCoincidentSwipes_def coincident_def SWIPE_DELAY_TOLERANCE_def
      exJoin_def exJoined_def envAt_def mkSwipe_def exClient_def exConfig_def clusterClients_def
      joinCluster_def getTransform_def update_two_def update_key_def push_connection_def
      getClientsInCluster_def Let_def)

subsection \<open>Clients that connect leaves without a cluster\<close>

lemma update_key_frame:
  "update_key k' f obj = Inr obj' \<Longrightarrow> k \<noteq> k' \<Longrightarrow> map_of obj' k = map_of obj k"
  by (auto simp: update_key_def update_conv' split: option.splits sum.splits)

lemma update_two_frame:
  assumes "update_two ka fa kb fb obj = Inr obj'" and "k \<noteq> ka" and "k \<noteq> kb"
  shows "map_of obj' k = map_of obj k"
proof (cases "ka = kb")
  case True
  with assms(1) have "update_key kb fb obj = Inr obj'" by (simp add: update_two_def)
  from update_key_frame [OF this assms(3)] show ?thesis .
next
  case False
  with assms(1) obtain mid where mid: "update_key ka fa obj = Inr mid"
    and fin: "update_key kb fb mid = Inr obj'"
    by (auto simp: update_two_def split: sum.splits)
  from update_key_frame [OF fin assms(3)] update_key_frame [OF mid assms(2)]
  show ?thesis by simp
qed

lemma apply_spec_frame:
  "apply_spec k' spec obj = Inr obj' \<Longrightarrow> k \<noteq> k' \<Longrightarrow> map_of obj' k = map_of obj k"
  by (auto simp: apply_spec_def update_conv' split: option.splits sum.splits)

lemma apply_changes_frame:
  "apply_changes rd wr chs obj = Inr obj' \<Longrightarrow> k \<notin> fst ` set chs \<Longrightarrow>
   map_of obj' k = map_of obj k"
proof (induction chs arbitrary: obj)
  case Nil
  then show ?case by simp
next
  case (Cons ch chs)
  obtain k' spec where ch: "ch = (k', spec)" by (cases ch)
  from Cons.prems ch obtain mid where
    mid: "update_key k' (\<lambda>v. case spec (rd v) of Inl e \<Rightarrow> Inl e | Inr d \<Rightarrow> Inr (wr d v)) obj
            = Inr mid"
    and rest: "apply_changes rd wr chs mid = Inr obj'"
    by (auto split: sum.splits)
  from Cons.prems ch have "k \<noteq> k'" and "k \<notin> fst ` set chs" by auto
  with Cons.IH [OF rest] update_key_frame [OF mid] show ?case by simp
qed

lemma zip_keys:
  "map fst (zip (map fst xs) (map f (map snd xs))) = map fst xs"
  by (induction xs) auto

lemma changes_keys:
  "fst ` set (getAllClientsChanges st next)
     = fst ` set (filter (\<lambda>(k, c). hasCluster c) (clients st))"
proof -
  let ?xs = "filter (\<lambda>(k, c). hasCluster c) (clients st)"
  have "fst ` set (getAllClientsChanges st next)
          = set (map fst (zip (map fst ?xs) (map (getClientChanges st next) (map snd ?xs))))"
    unfolding getAllClientsChanges_def Let_def by (simp only: set_map)
  also have "\<dots> = set (map fst ?xs)" by (simp only: zip_keys)
  also have "\<dots> = fst ` set ?xs" by (simp only: set_map)
  finally show ?thesis .
qed

lemma unclustered_not_changed:
  assumes "distinct (map fst cls)" and "map_of cls i = Some c" and "\<not> hasCluster c"
  shows "i \<notin> fst ` set (filter (\<lambda>(k, c). hasCluster c) cls)"
proof
  assume "i \<in> fst ` set (filter (\<lambda>(k, c). hasCluster c) cls)"
  then obtain c' where in_cls: "(i, c') \<in> set cls" and has: "hasCluster c'" by auto
  from assms(1) in_cls have "map_of cls i = Some c'" by simp
  with assms(2,3) has show False by simp
qed

lemma merge_frame:
  assumes "i \<noteq> client_id ca" and "i \<noteq> client_id cb"
  shows "joinCluster cfg st ca sa (Some cb) sb = Inr r \<Longrightarrow> map_of (clients r) i = map_of (clients st) i"
    and "createCluster cfg e st ca sa cb sb = Inr r \<Longrightarrow> map_of (clients r) i = map_of (clients st) i"
  using assms
  by (auto simp: joinCluster_def createCluster_def Let_def dest: update_two_frame
      split: sum.splits)

lemma nextState_frame:
  assumes "nextState cfg st = Inr st'" and "distinct (map fst (clients st))"
    and "map_of (clients st) i = Some c" and "\<not> hasCluster c"
  shows "map_of (clients st') i = Some c"
proof -
  let ?chs = "case client_events cfg ''update'' of
                None \<Rightarrow> [] | Some next \<Rightarrow> getAllClientsChanges st next"
  from assms(1) obtain cls where
    cls: "apply_changes client_data (\<lambda>d c. c\<lparr>client_data := Some d\<rparr>) ?chs (clients st) = Inr cls"
    and st': "clients st' = cls"
    by (auto simp: nextState_def Let_def split: sum.splits)
  have "i \<notin> fst ` set ?chs"
    using unclustered_not_changed [OF assms(2,3,4)]
    by (cases "client_events cfg ''update''") (simp_all add: changes_keys)
  from apply_changes_frame [OF cls this] st' assms(3) show ?thesis by simp
qed

lemma stored_id:
  "\<forall>(k, v) \<in> set cls. client_id v = k \<Longrightarrow> map_of cls k = Some v \<Longrightarrow> client_id v = k"
  by (auto dest: map_of_SomeD)

lemma clusterClients_frame:
  assumes ok: "clusterClients cfg e st sw pend = Inr r"
    and ids: "\<forall>(k, v) \<in> set (clients st). client_id v = k"
    and "swipe_id sw \<noteq> i" and "swipe_id pend \<noteq> i"
  shows "map_of (clients r) i = map_of (clients st) i"
proof -
  from ok obtain a where a: "map_of (clients st) (swipe_id sw) = Some a"
    by (auto simp: clusterClients_def split: option.splits)
  have b: "map_of (clients st) (swipe_id pend) \<noteq> None"
    using ok a by (auto simp: clusterClients_def joinCluster_def split: option.splits if_splits)
  then obtain b where b: "map_of (clients st) (swipe_id pend) = Some b" by blast
  from stored_id [OF ids a] assms(3) have ia: "i \<noteq> client_id a" by simp
  from stored_id [OF ids b] assms(4) have ib: "i \<noteq> client_id b" by simp
  from ok a b consider
      "joinCluster cfg st a sw (Some b) pend = Inr r"
    | "joinCluster cfg st b pend (Some a) sw = Inr r"
    | "createCluster cfg e st a sw b pend = Inr r"
    by (auto simp: clusterClients_def split: if_splits)
  then show ?thesis
  proof cases
    case 1
    from merge_frame(1) [OF ia ib 1] show ?thesis .
  next
    case 2
    from merge_frame(1) [OF ib ia 2] show ?thesis .
  next
    case 3
    from merge_frame(2) [OF ia ib 3] show ?thesis .
  qed
qed

text \<open>
  C10, as the code has it. \<open>connect\<close> stores the generated id under \<open>clusterID\<close>
  and leaves \<open>clusterId\<close> absent in the client it stores. Take any state with
  distinct keys, every client stored under its own id, and a stored client \<open>i\<close>
  whose \<open>clusterId\<close> is falsy (absent, null or empty), as it is for a client
  that \<open>connect\<close> made. Then \<open>clientAction\<close> for \<open>i\<close> returns the state unchanged
  when the event type is registered and throws the unhandled-event error when
  it is not. A swipe of \<open>i\<close> paired with another stored client, in either
  order, gives the result of \<open>createCluster\<close> when the partner's \<open>clusterId\<close> is
  falsy too, and the result of \<open>joinCluster\<close> with the partner as host and \<open>i\<close>
  as the joining client when the partner is in a cluster: \<open>i\<close> is never the
  host. When the \<open>clusterId\<close> is absent or null, the tick makes no change for
  \<open>i\<close> and leaves its record as it is, and the state keeps holding that record
  after every step that returns, unless the step disconnects \<open>i\<close>, connects
  \<open>i\<close> again, or is a swipe that found a candidate where \<open>i\<close> is one of the two
  clients.
\<close>

theorem connect_client_unclustered:
  fixes cfg :: "('d, 'p) config" and st :: "'d state" and "next" :: "('d, 'p) hook"
  assumes keys: "distinct (map fst (clients st))"
    and ids: "\<forall>(k, v) \<in> set (clients st). client_id v = k"
    and held: "map_of (clients st) i = Some c"
    and falsy: "\<not> truthy (clusterId c)"
  shows
  "map_option clusterId (map_of (clients (connect cfg e0 st0 i0 sz)) i0) = Some Undefined
   \<and> map_option clusterID (map_of (clients (connect cfg e0 st0 i0 sz)) i0) = Some (Some (uid e0))
   \<and> (client_events cfg ty \<noteq> None \<longrightarrow> clientAction cfg st i ty pl = Inr st)
   \<and> (client_events cfg ty = None \<longrightarrow> clientAction cfg st i ty pl = Inl (UnhandledEvent ty))
   \<and> (swipe_id sw = i \<and> map_of (clients st) (swipe_id pend) = Some b \<longrightarrow>
        clusterClients cfg e st sw pend =
          (if truthy (clusterId b) then joinCluster cfg st b pend (Some c) sw
           else createCluster cfg e st c sw b pend))
   \<and> (swipe_id pend = i \<and> map_of (clients st) (swipe_id sw) = Some a \<longrightarrow>
        clusterClients cfg e st sw pend =
          (if truthy (clusterId a) then joinCluster cfg st a sw (Some c) pend
           else createCluster cfg e st a sw c pend))
   \<and> (isNil (clusterId c) \<longrightarrow>
        \<not> hasCluster c
        \<and> i \<notin> fst ` set (getAllClientsChanges st next)
        \<and> (nextState cfg st = Inr st1 \<longrightarrow> map_of (clients st1) i = Some c)
        \<and> (reducer cfg e st act = Inr st2 \<longrightarrow>
             map_of (clients st2) i = Some c
             \<or> act = DISCONNECT i
             \<or> (\<exists>sz'. act = CONNECT i sz')
             \<or> (\<exists>s p rest. act = SWIPE s \<and> getCoincidentSwipes e (swipes st) = p # rest
                   \<and> (swipe_id s = i \<or> swipe_id p = i))))"
proof -
  have made: "map_option clusterId (map_of (clients (connect cfg e0 st0 i0 sz)) i0) = Some Undefined"
    and made': "map_option clusterID (map_of (clients (connect cfg e0 st0 i0 sz)) i0)
                  = Some (Some (uid e0))"
    by (simp_all add: connect_def Let_def update_conv')
  have registered: "client_events cfg ty \<noteq> None \<longrightarrow> clientAction cfg st i ty pl = Inr st"
    using held falsy by (auto simp: clientAction_def)
  have unregistered: "client_events cfg ty = None \<longrightarrow>
      clientAction cfg st i ty pl = Inl (UnhandledEvent ty)"
    by (simp add: clientAction_def)
  have incoming: "swipe_id sw = i \<and> map_of (clients st) (swipe_id pend) = Some b \<longrightarrow>
        clusterClients cfg e st sw pend =
          (if truthy (clusterId b) then joinCluster cfg st b pend (Some c) sw
           else createCluster cfg e st c sw b pend)"
    using held falsy by (auto simp: clusterClients_def)
  have pending: "swipe_id pend = i \<and> map_of (clients st) (swipe_id sw) = Some a \<longrightarrow>
        clusterClients cfg e st sw pend =
          (if truthy (clusterId a) then joinCluster cfg st a sw (Some c) pend
           else createCluster cfg e st a sw c pend)"
    using held falsy by (auto simp: clusterClients_def)
  have nil_part: "isNil (clusterId c) \<longrightarrow>
        \<not> hasCluster c
        \<and> i \<notin> fst ` set (getAllClientsChanges st next)
        \<and> (nextState cfg st = Inr st1 \<longrightarrow> map_of (clients st1) i = Some c)
        \<and> (reducer cfg e st act = Inr st2 \<longrightarrow>
             map_of (clients st2) i = Some c
             \<or> act = DISCONNECT i
             \<or> (\<exists>sz'. act = CONNECT i sz')
             \<or> (\<exists>s p rest. act = SWIPE s \<and> getCoincidentSwipes e (swipes st) = p # rest
                   \<and> (swipe_id s = i \<or> swipe_id p = i)))"
  proof
    assume nil: "isNil (clusterId c)"
    then have nohas: "\<not> hasCluster c" by (simp add: hasCluster_def)
    have tick: "i \<notin> fst ` set (getAllClientsChanges st next)"
      using unclustered_not_changed [OF keys held nohas] by (simp add: changes_keys)
    have next_frame: "nextState cfg st = Inr st1 \<longrightarrow> map_of (clients st1) i = Some c"
      using nextState_frame [OF _ keys held nohas] by blast
    have step: "reducer cfg e st act = Inr st2 \<longrightarrow>
        map_of (clients st2) i = Some c
        \<or> act = DISCONNECT i
        \<or> (\<exists>sz'. act = CONNECT i sz')
        \<or> (\<exists>s p rest. act = SWIPE s \<and> getCoincidentSwipes e (swipes st) = p # rest
              \<and> (swipe_id s = i \<or> swipe_id p = i))"
    proof
      assume ok: "reducer cfg e st act = Inr st2"
      show "map_of (clients st2) i = Some c
          \<or> act = DISCONNECT i
          \<or> (\<exists>sz'. act = CONNECT i sz')
          \<or> (\<exists>s p rest. act = SWIPE s \<and> getCoincidentSwipes e (swipes st) = p # rest
                \<and> (swipe_id s = i \<or> swipe_id p = i))"
      proof (cases act)
        case NEXT_STATE
        with ok nextState_frame [OF _ keys held nohas] show ?thesis by simp
      next
        case (CLIENT_ACTION j ty' pl')
        show ?thesis
        proof (cases "j = i")
          case True
          with ok CLIENT_ACTION held falsy have "st2 = st"
            by (auto simp: clientAction_def split: option.splits)
          with held show ?thesis by simp
        next
          case False
          have "map_of (clients st2) i = map_of (clients st) i"
          proof (cases "map_of (clients st) j")
            case None
            with ok CLIENT_ACTION show ?thesis
              by (auto simp: clientAction_def split: option.splits)
          next
            case (Some cj)
            from stored_id [OF ids Some] False have "i \<noteq> client_id cj" by simp
            with ok CLIENT_ACTION Some show ?thesis
              by (auto simp: clientAction_def Let_def dest: apply_spec_frame
                  split: option.splits if_splits sum.splits)
          qed
          with held show ?thesis by simp
        qed
      next
        case (CONNECT j sz')
        show ?thesis
        proof (cases "j = i")
          case True
          with CONNECT show ?thesis by simp
        next
          case False
          with ok CONNECT held show ?thesis
            by (auto simp: connect_def Let_def update_conv')
        qed
      next
        case (SWIPE s)
        show ?thesis
        proof (cases "getCoincidentSwipes e (swipes st)")
          case Nil
          with ok SWIPE held show ?thesis by (auto simp: doSwipe_def Let_def addSwipe_def)
        next
          case (Cons p rest)
          show ?thesis
          proof (cases "swipe_id s = i \<or> swipe_id p = i")
            case True
            with SWIPE Cons show ?thesis by blast
          next
            case False
            from ok SWIPE Cons obtain r where r: "clusterClients cfg e st s p = Inr r"
              and st2: "clients st2 = clients r"
              by (auto simp: doSwipe_def Let_def split: sum.splits)
            from clusterClients_frame [OF r ids] False st2 held show ?thesis by simp
          qed
        qed
      next
        case (LEAVE_CLUSTER j)
        with ok held nil show ?thesis
          by (cases "j = i")
             (auto simp: leaveCluster_def update_conv' split: option.splits if_splits)
      next
        case (DISCONNECT j)
        with ok held show ?thesis
          by (cases "j = i") (auto simp: disconnect_def delete_conv' split: option.splits)
      next
        case OTHER
        with ok held show ?thesis by simp
      qed
    qed
    from nohas tick next_frame step show
      "\<not> hasCluster c
        \<and> i \<notin> fst ` set (getAllClientsChanges st next)
        \<and> (nextState cfg st = Inr st1 \<longrightarrow> map_of (clients st1) i = Some c)
        \<and> (reducer cfg e st act = Inr st2 \<longrightarrow>
             map_of (clients st2) i = Some c
             \<or> act = DISCONNECT i
             \<or> (\<exists>sz'. act = CONNECT i sz')
             \<or> (\<exists>s p rest. act = SWIPE s \<and> getCoincidentSwipes e (swipes st) = p # rest
                   \<and> (swipe_id s = i \<or> swipe_id p = i)))"
      by blast
  qed
  from made made' registered unregistered incoming pending nil_part show ?thesis by blast
qed

theorem connect_client_unclustered_witness:
  "map_option clusterId (map_of (clients (connect exConfig (envAt ''c1'' 1000) initialState ''1''
       \<lparr>width = 100, height = 100\<rparr>)) ''1'') = Some Undefined
   \<and> map_option clusterID (map_of (clients (connect exConfig (envAt ''c1'' 1000) initialState ''1''
       \<lparr>width = 100, height = 100\<rparr>)) ''1'') = Some (Some ''c1'')
   \<and> distinct (map fst (clients exTwo))
   \<and> clients exTwo = [(''1'', soloClient ''1'' ''c1''), (''2'', soloClient ''2'' ''c2'')]
   \<and> client_id (soloClient ''1'' ''c1'') = ''1''
   \<and> client_id (soloClient ''2'' ''c2'') = ''2''
   \<and> map_of (clients exTwo) ''1'' = Some (soloClient ''1'' ''c1'')
   \<and> \<not> truthy (clusterId (soloClient ''1'' ''c1''))
   \<and> isNil (clusterId (soloClient ''1'' ''c1''))
   \<and> client_events exConfig ''tap'' \<noteq> None
   \<and> clientAction exConfig exTwo ''1'' ''tap'' () = Inr exTwo
   \<and> client_events exConfig ''zoom'' = None
   \<and> clientAction exConfig exTwo ''1'' ''zoom'' () = Inl (UnhandledEvent ''zoom'')
   \<and> \<not> hasCluster (soloClient ''1'' ''c1'')
   \<and> nextState exConfig exTwo = Inr exTwo
   \<and> reducer exConfig (envAt ''c3'' 1100) exTwo (LEAVE_CLUSTER ''1'') = Inr exTwo
   \<and> distinct (map fst (clients exPending))
   \<and> clients exPending
        = [(''A'', exClient ''A'' 100 50 Undefined), (''B'', exClient ''B'' 80 40 Undefined)]
   \<and> client_id (exClient ''A'' 100 50 Undefined) = ''A''
   \<and> client_id (exClient ''B'' 80 40 Undefined) = ''B''
   \<and> \<not> truthy (clusterId (exClient ''A'' 100 50 Undefined))
   \<and> \<not> truthy (clusterId (exClient ''B'' 80 40 Undefined))
   \<and> clusterClients exConfig (envAt ''k'' 1499) exPending
        (mkSwipe ''B'' ''LEFT'' 0 5) (mkSwipe ''A'' ''RIGHT'' 10 5)
       = createCluster exConfig (envAt ''k'' 1499) exPending
           (exClient ''B'' 80 40 Undefined) (mkSwipe ''B'' ''LEFT'' 0 5)
           (exClient ''A'' 100 50 Undefined) (mkSwipe ''A'' ''RIGHT'' 10 5)
   \<and> clusterClients exConfig (envAt ''k'' 1499) exPending
        (mkSwipe ''B'' ''LEFT'' 0 5) (mkSwipe ''A'' ''RIGHT'' 10 5)
       = Inr exPaired
   \<and> joinCluster exConfig exPending
        (exClient ''B'' 80 40 Undefined) (mkSwipe ''B'' ''LEFT'' 0 5)
        (Some (exClient ''A'' 100 50 Undefined)) (mkSwipe ''A'' ''RIGHT'' 10 5)
       \<noteq> Inr exPaired
   \<and> joinCluster exConfig exPending
        (exClient ''A'' 100 50 Undefined) (mkSwipe ''A'' ''RIGHT'' 10 5)
        (Some (exClient ''B'' 80 40 Undefined)) (mkSwipe ''B'' ''LEFT'' 0 5)
       \<noteq> Inr exPaired
   \<and> distinct (map fst (clients exJoin))
   \<and> clients exJoin
        = [(''A'', exClient ''A'' 100 50 (Val ''k'')), (''B'', exClient ''B'' 80 40 (Val ''k'')),
           (''C'', exClient ''C'' 60 30 Undefined)]
   \<and> client_id (exClient ''A'' 100 50 (Val ''k'')) = ''A''
   \<and> client_id (exClient ''B'' 80 40 (Val ''k'')) = ''B''
   \<and> client_id (exClient ''C'' 60 30 Undefined) = ''C''
   \<and> \<not> truthy (clusterId (exClient ''C'' 60 30 Undefined))
   \<and> truthy (clusterId (exClient ''A'' 100 50 (Val ''k'')))
   \<and> clusterClients exConfig (envAt ''u'' 1499) exJoin
        (mkSwipe ''C'' ''LEFT'' 0 5) (mkSwipe ''A'' ''RIGHT'' 10 5)
       = joinCluster exConfig exJoin
           (exClient ''A'' 100 50 (Val ''k'')) (mkSwipe ''A'' ''RIGHT'' 10 5)
           (Some (exClient ''C'' 60 30 Undefined)) (mkSwipe ''C'' ''LEFT'' 0 5)
   \<and> clusterClients exConfig (envAt ''u'' 1499) exJoin
        (mkSwipe ''A'' ''RIGHT'' 10 5) (mkSwipe ''C'' ''LEFT'' 0 5)
       = joinCluster exConfig exJoin
           (exClient ''A'' 100 50 (Val ''k'')) (mkSwipe ''A'' ''RIGHT'' 10 5)
           (Some (exClient ''C'' 60 30 Undefined)) (mkSwipe ''C'' ''LEFT'' 0 5)
   \<and> clusterClients exConfig (envAt ''u'' 1499) exJoin
        (mkSwipe ''C'' ''LEFT'' 0 5) (mkSwipe ''A'' ''RIGHT'' 10 5)
       = Inr (exJoined\<lparr>swipes := swipes exJoin\<rparr>)
   \<and> createCluster exConfig (envAt ''u'' 1499) exJoin
        (exClient ''C'' 60 30 Undefined) (mkSwipe ''C'' ''LEFT'' 0 5)
        (exClient ''A'' 100 50 (Val ''k'')) (mkSwipe ''A'' ''RIGHT'' 10 5)
       \<noteq> Inr (exJoined\<lparr>swipes := swipes exJoin\<rparr>)"
proof -
  let ?c1 = "soloClient ''1'' ''c1''"
  let ?c2 = "soloClient ''2'' ''c2''"
  let ?a = "exClient ''A'' 100 50 Undefined"
  let ?b = "exClient ''B'' 80 40 Undefined"
  let ?ka = "exClient ''A'' 100 50 (Val ''k'')"
  let ?kb = "exClient ''B'' 80 40 (Val ''k'')"
  let ?c = "exClient ''C'' 60 30 Undefined"
  let ?sa = "mkSwipe ''A'' ''RIGHT'' 10 5"
  let ?sb = "mkSwipe ''B'' ''LEFT'' 0 5"
  let ?sc = "mkSwipe ''C'' ''LEFT'' 0 5"
  let ?e = "envAt ''k'' 1499"
  let ?u = "envAt ''u'' 1499"
  let ?l = "envAt ''c3'' 1100"
  \<comment> \<open>The state of two connected clients.\<close>
  have two: "clients exTwo = [(''1'', ?c1), (''2'', ?c2)]"
    by (simp add: exTwo_def exSolo_def connect_def initialState_def exConfig_def envAt_def
        soloClient_def Let_def)
  have keys2: "distinct (map fst (clients exTwo))"
    and held2: "map_of (clients exTwo) ''1'' = Some ?c1"
    by (simp_all add: two)
  have own1: "client_id ?c1 = ''1''" and own2: "client_id ?c2 = ''2''"
    and falsy1: "\<not> truthy (clusterId ?c1)" and nil1: "isNil (clusterId ?c1)"
    by (simp_all add: soloClient_def)
  have ids2: "\<forall>(k, v) \<in> set (clients exTwo). client_id v = k"
    by (simp add: two own1 own2)
  have tap: "client_events exConfig ''tap'' \<noteq> None"
    and zoom: "client_events exConfig ''zoom'' = None"
    by (simp_all add: exConfig_def)
  have tick: "nextState exConfig exTwo = Inr exTwo"
    by (simp add: nextState_def exConfig_def)
  have leave: "reducer exConfig ?l exTwo (LEAVE_CLUSTER ''1'') = Inr exTwo"
    by (simp add: leaveCluster_def held2 soloClient_def)
  note T2 = connect_client_unclustered [where cfg = exConfig and ?e0.0 = "envAt ''c1'' 1000"
      and ?st0.0 = initialState and ?i0.0 = "''1''" and sz = "\<lparr>width = 100, height = 100\<rparr>"
      and e = ?l and act = "LEAVE_CLUSTER ''1''" and ?st2.0 = exTwo and ?st1.0 = exTwo,
      OF keys2 ids2 held2 falsy1]
  have made: "map_option clusterId (map_of (clients (connect exConfig (envAt ''c1'' 1000)
          initialState ''1'' \<lparr>width = 100, height = 100\<rparr>)) ''1'') = Some Undefined"
    by (rule T2 [THEN conjunct1])
  have "map_option clusterID (map_of (clients (connect exConfig (envAt ''c1'' 1000)
          initialState ''1'' \<lparr>width = 100, height = 100\<rparr>)) ''1'')
        = Some (Some (uid (envAt ''c1'' 1000)))"
    by (rule T2 [THEN conjunct2, THEN conjunct1])
  then have made': "map_option clusterID (map_of (clients (connect exConfig (envAt ''c1'' 1000)
          initialState ''1'' \<lparr>width = 100, height = 100\<rparr>)) ''1'') = Some (Some ''c1'')"
    by (simp add: envAt_def)
  from connect_client_unclustered [where cfg = exConfig and ty = "''tap''" and pl = "()",
      OF keys2 ids2 held2 falsy1, THEN conjunct2, THEN conjunct2, THEN conjunct1] tap
  have r_tap: "clientAction exConfig exTwo ''1'' ''tap'' () = Inr exTwo" by blast
  from connect_client_unclustered [where cfg = exConfig and ty = "''zoom''" and pl = "()",
      OF keys2 ids2 held2 falsy1, THEN conjunct2, THEN conjunct2, THEN conjunct2,
      THEN conjunct1] zoom
  have r_zoom: "clientAction exConfig exTwo ''1'' ''zoom'' () = Inl (UnhandledEvent ''zoom'')"
    by blast
  note nil2 = T2 [THEN conjunct2, THEN conjunct2, THEN conjunct2, THEN conjunct2,
      THEN conjunct2, THEN conjunct2, THEN mp, OF nil1]
  have r_has: "\<not> hasCluster ?c1" by (rule nil2 [THEN conjunct1])
  from nil2 [THEN conjunct2, THEN conjunct2, THEN conjunct1] tick
  have r_tick: "map_of (clients exTwo) ''1'' = Some ?c1" by blast
  from nil2 [THEN conjunct2, THEN conjunct2, THEN conjunct2] leave
  have r_leave: "map_of (clients exTwo) ''1'' = Some ?c1" by simp
  \<comment> \<open>Two clients without a cluster that have a \<open>connections\<close> array.\<close>
  have pend: "clients exPending = [(''A'', ?a), (''B'', ?b)]" by (simp add: exPending_def)
  have keysP: "distinct (map fst (clients exPending))"
    and heldB: "map_of (clients exPending) ''B'' = Some ?b"
    and heldA: "map_of (clients exPending) ''A'' = Some ?a"
    by (simp_all add: pend)
  have ownA: "client_id ?a = ''A''" and ownB: "client_id ?b = ''B''"
    and falsyA: "\<not> truthy (clusterId ?a)" and falsyB: "\<not> truthy (clusterId ?b)"
    by (simp_all add: exClient_def)
  have idsP: "\<forall>(k, v) \<in> set (clients exPending). client_id v = k"
    by (simp add: pend ownA ownB)
  have sid: "swipe_id ?sa = ''A''" "swipe_id ?sb = ''B''" "swipe_id ?sc = ''C''"
    by (simp_all add: mkSwipe_def)
  from connect_client_unclustered [where cfg = exConfig and sw = ?sb and pend = ?sa and b = ?a
      and e = ?e, OF keysP idsP heldB falsyB, THEN conjunct2, THEN conjunct2, THEN conjunct2,
      THEN conjunct2, THEN conjunct1] sid heldA falsyA
  have r_create: "clusterClients exConfig ?e exPending ?sb ?sa
                    = createCluster exConfig ?e exPending ?b ?sb ?a ?sa"
    by simp
  from connect_client_unclustered [where cfg = exConfig and sw = ?sb and pend = ?sa and a = ?b
      and e = ?e, OF keysP idsP heldA falsyA, THEN conjunct2, THEN conjunct2, THEN conjunct2,
      THEN conjunct2, THEN conjunct2, THEN conjunct1] sid heldB falsyB
  have r_create': "clusterClients exConfig ?e exPending ?sb ?sa
                    = createCluster exConfig ?e exPending ?b ?sb ?a ?sa"
    by simp
  have v_create: "createCluster exConfig ?e exPending ?b ?sb ?a ?sa = Inr exPaired"
    by (simp add: createCluster_def exPending_def exPaired_def envAt_def mkSwipe_def
        exClient_def exConfig_def getTransform_def update_two_def update_key_def
        push_connection_def Let_def)
  have v_join1: "joinCluster exConfig exPending ?b ?sb (Some ?a) ?sa \<noteq> Inr exPaired"
    and v_join2: "joinCluster exConfig exPending ?a ?sa (Some ?b) ?sb \<noteq> Inr exPaired"
    by (simp_all add: joinCluster_def exPending_def exPaired_def mkSwipe_def exClient_def
        exConfig_def getTransform_def update_two_def update_key_def push_connection_def
        getClientsInCluster_def Let_def)
  \<comment> \<open>A client without a cluster and a partner in the cluster \<open>k\<close>.\<close>
  have join: "clients exJoin = [(''A'', ?ka), (''B'', ?kb), (''C'', ?c)]"
    by (simp add: exJoin_def)
  have keysJ: "distinct (map fst (clients exJoin))"
    and heldC: "map_of (clients exJoin) ''C'' = Some ?c"
    and heldK: "map_of (clients exJoin) ''A'' = Some ?ka"
    by (simp_all add: join)
  have ownKA: "client_id ?ka = ''A''" and ownKB: "client_id ?kb = ''B''"
    and ownC: "client_id ?c = ''C''"
    and falsyC: "\<not> truthy (clusterId ?c)" and truthyA: "truthy (clusterId ?ka)"
    by (simp_all add: exClient_def)
  have idsJ: "\<forall>(k, v) \<in> set (clients exJoin). client_id v = k"
    by (simp add: join ownKA ownKB ownC)
  from connect_client_unclustered [where cfg = exConfig and sw = ?sc and pend = ?sa and b = ?ka
      and e = ?u, OF keysJ idsJ heldC falsyC, THEN conjunct2, THEN conjunct2, THEN conjunct2,
      THEN conjunct2, THEN conjunct1] sid heldK truthyA
  have r_join: "clusterClients exConfig ?u exJoin ?sc ?sa
                  = joinCluster exConfig exJoin ?ka ?sa (Some ?c) ?sc"
    by simp
  from connect_client_unclustered [where cfg = exConfig and sw = ?sa and pend = ?sc and a = ?ka
      and e = ?u, OF keysJ idsJ heldC falsyC, THEN conjunct2, THEN conjunct2, THEN conjunct2,
      THEN conjunct2, THEN conjunct2, THEN conjunct1] sid heldK truthyA
  have r_join': "clusterClients exConfig ?u exJoin ?sa ?sc
                  = joinCluster exConfig exJoin ?ka ?sa (Some ?c) ?sc"
    by simp
  have v_join: "joinCluster exConfig exJoin ?ka ?sa (Some ?c) ?sc
                  = Inr (exJoined\<lparr>swipes := swipes exJoin\<rparr>)"
    by (simp add: joinCluster_def exJoin_def exJoined_def mkSwipe_def exClient_def
        exConfig_def getTransform_def update_two_def update_key_def push_connection_def
        getClientsInCluster_def Let_def)
  have v_other: "createCluster exConfig ?u exJoin ?c ?sc ?ka ?sa
                  \<noteq> Inr (exJoined\<lparr>swipes := swipes exJoin\<rparr>)"
    by (simp add: createCluster_def exJoin_def exJoined_def envAt_def mkSwipe_def exClient_def
        exConfig_def getTransform_def update_two_def update_key_def push_connection_def
        Let_def)
  have v_pair: "clusterClients exConfig ?e exPending ?sb ?sa = Inr exPaired"
    using r_create' v_create by simp
  have v_joined: "clusterClients exConfig ?u exJoin ?sc ?sa
                    = Inr (exJoined\<lparr>swipes := swipes exJoin\<rparr>)"
    using r_join v_join by simp
  from made made' keys2 two own1 own2 held2 falsy1 nil1 tap r_tap zoom r_zoom r_has tick leave
    keysP pend ownA ownB falsyA falsyB r_create v_pair v_join1 v_join2
    keysJ join ownKA ownKB ownC falsyC truthyA r_join r_join' v_joined v_other
  show ?thesis by blast
qed

text \<open>
  The claim C10 has \<open>clientAction\<close> return the state unchanged and the pairing
  take the create branch, for every client that \<open>connect\<close> made. Here client
  \<open>1\<close> has just connected to a state that holds the cluster \<open>k\<close> of \<open>B\<close>. An
  event type without a handler throws. Paired with \<open>B\<close>, which is in a
  cluster, the swipe of \<open>1\<close> goes to \<open>joinCluster\<close> with \<open>B\<close> as host: its own
  direction is not a valid one and the direction of \<open>B\<close> is, and the step
  throws the error of the push in \<open>joinCluster\<close>, where \<open>createCluster\<close> throws
  the invalid direction.
\<close>

theorem connect_client_throws_or_joins:
  "clients exMixed
     = [(''B'', exClient ''B'' 80 40 (Val ''k'')), (''1'', soloClient ''1'' ''c1'')]
   \<and> client_events exConfig ''zoom'' = None
   \<and> clientAction exConfig exMixed ''1'' ''zoom'' () = Inl (UnhandledEvent ''zoom'')
   \<and> clientAction exConfig exMixed ''1'' ''zoom'' () \<noteq> Inr exMixed
   \<and> clusterClients exConfig (envAt ''u'' 1499) exMixed
        (mkSwipe ''1'' ''DIAGONAL'' 0 5) (mkSwipe ''B'' ''RIGHT'' 10 5)
       = joinCluster exConfig exMixed
           (exClient ''B'' 80 40 (Val ''k'')) (mkSwipe ''B'' ''RIGHT'' 10 5)
           (Some (soloClient ''1'' ''c1'')) (mkSwipe ''1'' ''DIAGONAL'' 0 5)
   \<and> clusterClients exConfig (envAt ''u'' 1499) exMixed
        (mkSwipe ''1'' ''DIAGONAL'' 0 5) (mkSwipe ''B'' ''RIGHT'' 10 5)
       = Inl (InvariantViolation ''$push'')
   \<and> createCluster exConfig (envAt ''u'' 1499) exMixed
        (soloClient ''1'' ''c1'') (mkSwipe ''1'' ''DIAGONAL'' 0 5)
        (exClient ''B'' 80 40 (Val ''k'')) (mkSwipe ''B'' ''RIGHT'' 10 5)
       = Inl (InvalidDirection ''DIAGONAL'')"
  by (simp add: exMixed_def exLast_def connect_def clientAction_def clusterClients_def
      joinCluster_def createCluster_def envAt_def mkSwipe_def exClient_def soloClient_def
      exConfig_def getTransform_def update_two_def update_key_def push_connection_def
      getClientsInCluster_def Let_def)

end
